theory Spec2Isabelle
  imports Main "HOL-Library.AList"
begin

section \<open>Go strings\<close>

text \<open>
  A Go string is a sequence of bytes and \<open>len\<close> counts bytes, so a Go string is a
  \<^typ>\<open>string\<close> (a list of 8-bit characters) and \<open>len\<close> is \<^const>\<open>length\<close>.
  The functions below are the ones of package \<open>strings\<close> that the source calls.
\<close>

definition HasPrefix :: "string \<Rightarrow> string \<Rightarrow> bool" where
  "HasPrefix s p = (take (length p) s = p)"

definition HasSuffix :: "string \<Rightarrow> string \<Rightarrow> bool" where
  "HasSuffix s suf = (length suf \<le> length s \<and> drop (length s - length suf) s = suf)"

definition TrimPrefix :: "string \<Rightarrow> string \<Rightarrow> string" where
  "TrimPrefix s p = (if HasPrefix s p then drop (length p) s else s)"

text \<open>\<open>strings.Index\<close>: the position of the first occurrence, \<open>None\<close> for Go's -1.\<close>

fun Index :: "string \<Rightarrow> string \<Rightarrow> nat option" where
  "Index [] sub = (if sub = [] then Some 0 else None)"
| "Index (c # cs) sub =
     (if HasPrefix (c # cs) sub then Some 0 else map_option Suc (Index cs sub))"

definition Contains :: "string \<Rightarrow> string \<Rightarrow> bool" where
  "Contains s sub = (Index s sub \<noteq> None)"

text \<open>
  \<open>strings.Split\<close>. Every call in the source passes a separator of one byte
  (\<open>"@"\<close> or \<open>","\<close>), so the separator is a character here.
\<close>

fun splitByte :: "char \<Rightarrow> string \<Rightarrow> string \<Rightarrow> string list" where
  "splitByte sep cur [] = [rev cur]"
| "splitByte sep cur (c # cs) =
     (if c = sep then rev cur # splitByte sep [] cs else splitByte sep (c # cur) cs)"

definition Split :: "string \<Rightarrow> char \<Rightarrow> string list" where
  "Split s sep = splitByte sep [] s"

text \<open>\<open>strings.Replace(s, old, new, 1)\<close>: only the first occurrence is replaced.\<close>

definition Replace :: "string \<Rightarrow> string \<Rightarrow> string \<Rightarrow> string" where
  "Replace s old new =
     (case Index s old of
        None \<Rightarrow> s
      | Some i \<Rightarrow> take i s @ new @ drop (i + length old) s)"

text \<open>
  \<open>strings.Trim(s, cutset)\<close> for a cutset of ASCII bytes (the source passes
  \<open>"v"\<close> and \<open>"V"\<close>): every leading and every trailing byte of the cutset goes.
\<close>

definition Trim :: "string \<Rightarrow> string \<Rightarrow> string" where
  "Trim s cutset =
     dropWhile (\<lambda>c. c \<in> set cutset) (rev (dropWhile (\<lambda>c. c \<in> set cutset) (rev s)))"

text \<open>
  \<open>strings.TrimSpace\<close> removes leading and trailing white space as Unicode defines it.
  In UTF-8 the white-space code points are the byte sequences of \<open>spaceRunes\<close>:
  tab, line feed, vertical tab, form feed, carriage return, space, U+0085, U+00A0,
  U+1680, U+2000 to U+200A, U+2028, U+2029, U+202F, U+205F and U+3000.
\<close>

definition spaceRunes :: "string list" where
  "spaceRunes =
     [[CHR 0x09], [CHR 0x0A], [CHR 0x0B], [CHR 0x0C], [CHR 0x0D], [CHR 0x20],
      [CHR 0xC2, CHR 0x85], [CHR 0xC2, CHR 0xA0],
      [CHR 0xE1, CHR 0x9A, CHR 0x80],
      [CHR 0xE2, CHR 0x80, CHR 0x80], [CHR 0xE2, CHR 0x80, CHR 0x81],
      [CHR 0xE2, CHR 0x80, CHR 0x82], [CHR 0xE2, CHR 0x80, CHR 0x83],
      [CHR 0xE2, CHR 0x80, CHR 0x84], [CHR 0xE2, CHR 0x80, CHR 0x85],
      [CHR 0xE2, CHR 0x80, CHR 0x86], [CHR 0xE2, CHR 0x80, CHR 0x87],
      [CHR 0xE2, CHR 0x80, CHR 0x88], [CHR 0xE2, CHR 0x80, CHR 0x89],
      [CHR 0xE2, CHR 0x80, CHR 0x8A],
      [CHR 0xE2, CHR 0x80, CHR 0xA8], [CHR 0xE2, CHR 0x80, CHR 0xA9],
      [CHR 0xE2, CHR 0x80, CHR 0xAF],
      [CHR 0xE2, CHR 0x81, CHR 0x9F],
      [CHR 0xE3, CHR 0x80, CHR 0x80]]"

function trimLeftRunes :: "string list \<Rightarrow> string \<Rightarrow> string" where
  "trimLeftRunes rs s =
     (case find (\<lambda>r. r \<noteq> [] \<and> HasPrefix s r) rs of
        None \<Rightarrow> s
      | Some r \<Rightarrow> trimLeftRunes rs (drop (length r) s))"
  by pat_completeness auto
termination
proof (relation "measure (\<lambda>(rs, s). length s)")
  show "wf (measure (\<lambda>(rs, s). length s))" by simp
next
  fix rs :: "string list" and s r :: string
  assume "find (\<lambda>r. r \<noteq> [] \<and> HasPrefix s r) rs = Some r"
  then have "r \<noteq> []" and "HasPrefix s r"
    by (auto simp: find_Some_iff)
  then have "s \<noteq> []"
    by (auto simp: HasPrefix_def)
  with \<open>r \<noteq> []\<close> show "((rs, drop (length r) s), (rs, s)) \<in> measure (\<lambda>(rs, s). length s)"
    by simp
qed

definition TrimSpace :: "string \<Rightarrow> string" where
  "TrimSpace s =
     rev (trimLeftRunes (map rev spaceRunes) (rev (trimLeftRunes spaceRunes s)))"

text \<open>
  \<open>strings.ToLower\<close> maps \<open>A\<close> to \<open>Z\<close> bytewise when every byte is ASCII and
  otherwise lower-cases by the Unicode tables, which are the function \<open>ul\<close> here.
\<close>

definition lowerByte :: "char \<Rightarrow> char" where
  "lowerByte c =
     (if 65 \<le> (of_char c :: nat) \<and> (of_char c :: nat) \<le> 90
      then char_of ((of_char c :: nat) + 32) else c)"

definition ToLower :: "(string \<Rightarrow> string) \<Rightarrow> string \<Rightarrow> string" where
  "ToLower ul s =
     (if list_all (\<lambda>c. (of_char c :: nat) < 128) s then map lowerByte s else ul s)"

text \<open>A Go map read with \<open>m[k]\<close> gives the zero value, the empty string, for a missing key.\<close>

definition lookupStr :: "(string \<times> string) list \<Rightarrow> string \<Rightarrow> string" where
  "lookupStr m k = (case map_of m k of None \<Rightarrow> [] | Some v \<Rightarrow> v)"

section \<open>Data model\<close>

text \<open>
  Go maps are association lists read with \<^const>\<open>map_of\<close> and written with
  \<^const>\<open>AList.update\<close>; the order of the list is the order in which one run of the
  program ranges over the map, which Go leaves unspecified.
\<close>

text \<open>The content of an \<open>unstructured.Unstructured\<close> object: a JSON tree.\<close>

datatype json =
    JNull
  | JBool bool
  | JNumber int
  | JString string
  | JArray "json list"
  | JObject "(string \<times> json) list"

text \<open>Package \<open>bom\<close>: the fields the source sets.\<close>

record Container =
  Container_Repository :: string
  Container_Registry :: string
  Container_ID :: string
  Container_Digest :: string
  Container_Version :: string

record Component =
  Component_Namespace :: string
  Component_Name :: string
  Component_Version :: string
  Component_Properties :: "(string \<times> string) list"
  Component_Containers :: "Container list"

record NodeInfo =
  NodeInfo_NodeName :: string
  NodeInfo_KubeletVersion :: string
  NodeInfo_ContainerRuntimeVersion :: string
  NodeInfo_OsImage :: string
  NodeInfo_Properties :: "(string \<times> string) list"
  NodeInfo_Images :: "string list"

record Result =
  Result_Components :: "Component list"
  Result_ID :: string
  Result_Type :: string
  Result_Version :: string
  Result_Properties :: "(string \<times> string) list"
  Result_NodesInfo :: "NodeInfo list"

text \<open>Package \<open>corev1\<close>: the fields the source reads.\<close>

record PodContainer =
  Container_Image :: string

record ContainerStatus =
  Status_Image :: string
  Status_ImageID :: string

record PodSpec =
  PodSpec_Containers :: "PodContainer list"
  PodSpec_ImagePullSecrets :: "string list"
  PodSpec_ServiceAccountName :: string

record Pod =
  Pod_Name :: string
  Pod_Namespace :: string
  Pod_Labels :: "(string \<times> string) list"
  Pod_Spec :: PodSpec
  Pod_ContainerStatuses :: "ContainerStatus list"

record Node =
  Node_Name :: string
  Node_Labels :: "(string \<times> string) list"
  Node_KubeletVersion :: string
  Node_ContainerRuntimeVersion :: string
  Node_OSImage :: string
  Node_KernelVersion :: string
  Node_OperatingSystem :: string
  Node_Architecture :: string
  Node_Images :: "string list list"

record Secret =
  Secret_Type :: string
  Secret_Data :: "(string \<times> string) list"
  Secret_Namespace :: string
  Secret_Name :: string

record ServiceAccount =
  ServiceAccount_ImagePullSecrets :: "string list"

text \<open>Package \<open>docker\<close>: a credential, as far as the source sets it.\<close>

record Auth =
  Auth_Username :: string
  Auth_Password :: string

text \<open>The parsed image reference: what the three methods called on it return.\<close>

record Reference =
  RepositoryStr :: string
  RegistryStr :: string
  Identifier :: string

text \<open>
  Errors. \<open>StatusError\<close> is an error of the cluster API with its class; \<open>Wrapf\<close> is
  \<open>fmt.Errorf\<close> with \<open>%w\<close>, which \<open>IsNotFound\<close> and \<open>IsForbidden\<close> look through;
  \<open>Panic\<close> is a run-time panic.
\<close>

datatype status_reason = NotFound | Forbidden | OtherReason string

datatype error =
    StatusError status_reason
  | Wrapf string error
  | UnableToParseImageName string error
  | UnableToParseDigest string string
  | AccessorError "string list"
  | NoPodSpec
  | ExternalError string
  | Panic string

fun IsNotFound :: "error \<Rightarrow> bool" where
  "IsNotFound (StatusError r) = (r = NotFound)"
| "IsNotFound (Wrapf m e) = IsNotFound e"
| "IsNotFound e = False"

fun IsForbidden :: "error \<Rightarrow> bool" where
  "IsForbidden (StatusError r) = (r = Forbidden)"
| "IsForbidden (Wrapf m e) = IsForbidden e"
| "IsForbidden e = False"

text \<open>
  The functions the source calls whose code is in other packages (\<open>utils\<close>,
  \<open>docker\<close>, \<open>mapstructure\<close>, \<open>unicode\<close>) are parameters: every theorem holds
  whatever they compute.
\<close>

record deps =
  ParseReference :: "string \<Rightarrow> error + Reference"
  unicodeToLower :: "string \<Rightarrow> string"
  Config_Read :: "string \<Rightarrow> bool \<Rightarrow> error + (string \<times> Auth) list"
  GetServerFromDockerAuthKey :: "string \<Rightarrow> error + string"
  GetServerFromImageRef :: "string \<Rightarrow> error + string"
  Decode :: "(string \<times> json) list \<Rightarrow> PodSpec \<times> error option"

text \<open>Indexing a slice panics out of range.\<close>

definition index :: "'a list \<Rightarrow> nat \<Rightarrow> error + 'a" where
  "index xs i = (if i < length xs then Inr (xs ! i) else Inl (Panic ''index out of range''))"

section \<open>Image reference parser\<close>

definition Canonical :: string where
  "Canonical = ''sha256''"

definition Canonical_Size :: nat where
  "Canonical_Size = 32"

definition DefaultRegistry :: string where
  "DefaultRegistry = ''index.docker.io''"

definition extractDigest :: "string \<Rightarrow> error + string" where
  "extractDigest imageId =
     (case (if Contains imageId ''@'' then index (Split imageId CHR ''@'') 1 else Inr imageId) of
        Inl e \<Rightarrow> Inl e
      | Inr imageId' \<Rightarrow> Inr (TrimPrefix imageId' (Canonical @ '':'')))"

definition GetContainer :: "deps \<Rightarrow> string \<Rightarrow> string \<Rightarrow> error + Container" where
  "GetContainer d imageName imageId =
     (case (if Contains imageName ''@'' then index (Split imageName CHR ''@'') 0
            else Inr imageName) of
        Inl e \<Rightarrow> Inl e
      | Inr imageName' \<Rightarrow>
          (case ParseReference d imageName' of
             Inl err \<Rightarrow> Inl (UnableToParseImageName imageName' err)
           | Inr imageRef \<Rightarrow>
               (case extractDigest imageId of
                  Inl e \<Rightarrow> Inl e
                | Inr imageDigest \<Rightarrow>
                    if length imageDigest \<noteq> Canonical_Size * 2
                    then Inl (UnableToParseDigest imageId imageName')
                    else
                      (let repoName = RepositoryStr imageRef;
                           registryName = RegistryStr imageRef;
                           repoName' = (if registryName = DefaultRegistry
                                        then TrimPrefix repoName ''library/'' else repoName);
                           version = Identifier imageRef
                       in Inr \<lparr>Container_Repository = repoName',
                               Container_Registry = registryName,
                               Container_ID = repoName' @ '':'' @ version,
                               Container_Digest = imageDigest,
                               Container_Version = version\<rparr>))))"

definition getImageID :: "string \<Rightarrow> string" where
  "getImageID img =
     (if HasPrefix img (Canonical @ '':'') then img
      else (case Split img CHR ''@'' of
              p0 # p1 # ps \<Rightarrow> if HasPrefix p1 (Canonical @ '':'') then p1 else []
            | _ \<Rightarrow> []))"

section \<open>Component namer\<close>

definition UpstreamOrgName :: "(string \<times> string) list" where
  "UpstreamOrgName =
     [(''k8s.io'', ''controller-manager,kubelet,apiserver,kubectl,kubernetes,kube-scheduler,kube-proxy,cloud-provider,ingress-nginx''),
      (''sigs.k8s.io'', ''secrets-store-csi-driver''),
      (''go.etcd.io'', ''etcd/v3'')]"

definition UpstreamRepoName :: "(string \<times> string) list" where
  "UpstreamRepoName =
     [(''kube-controller-manager'', ''controller-manager''),
      (''kubelet'', ''kubelet''),
      (''kube-apiserver'', ''apiserver''),
      (''kubectl'', ''kubectl''),
      (''kubernetes'', ''kubernetes''),
      (''kube-scheduler'', ''kube-scheduler''),
      (''kube-proxy'', ''kube-proxy''),
      (''api server'', ''apiserver''),
      (''etcd'', ''etcd/v3''),
      (''cloud-controller-manager'', ''cloud-provider''),
      (''secrets-store-csi-driver'', ''secrets-store-csi-driver'')]"

definition CoreComponentPropertyType :: "(string \<times> string) list" where
  "CoreComponentPropertyType =
     [(''controller-manager'', ''controlPlane''),
      (''apiserver'', ''controlPlane''),
      (''kube-scheduler'', ''controlPlane''),
      (''etcd/v3'', ''controlPlane''),
      (''cloud-provider'', ''controlPlane''),
      (''kube-proxy'', ''node'')]"

text \<open>
  The loops of \<open>upstreamOrgByName\<close> over a table given in the order in which the run
  ranges over it; \<open>upstreamOrgByName\<close> is the loop over \<open>UpstreamOrgName\<close>.
\<close>

fun upstreamOrgByName_range ::
  "(string \<Rightarrow> string) \<Rightarrow> (string \<times> string) list \<Rightarrow> string \<Rightarrow> string" where
  "upstreamOrgByName_range ul [] component = []"
| "upstreamOrgByName_range ul ((key, components) # rest) component =
     (if list_ex (\<lambda>c. TrimSpace c = ToLower ul component) (Split components CHR '','')
      then key
      else upstreamOrgByName_range ul rest component)"

definition upstreamOrgByName :: "deps \<Rightarrow> string \<Rightarrow> string" where
  "upstreamOrgByName d component =
     upstreamOrgByName_range (unicodeToLower d) UpstreamOrgName component"

definition upstreamRepoByName :: "string \<Rightarrow> string" where
  "upstreamRepoByName component =
     (case map_of UpstreamRepoName component of
        Some val \<Rightarrow> val
      | None \<Rightarrow> component)"

definition trimString :: "string \<Rightarrow> string list \<Rightarrow> string" where
  "trimString version trimValues = TrimSpace (foldl Trim version trimValues)"

definition k8sVersions :: "string \<Rightarrow> string" where
  "k8sVersions version =
     (if Contains version ''+rke2''
      then (case Index version ''+rke2'' of Some i \<Rightarrow> take i version | None \<Rightarrow> version)
      else if Contains version ''-rke2''
      then (case Index version ''-rke2'' of Some i \<Rightarrow> take i version | None \<Rightarrow> version)
      else if Contains version ''-k3s''
      then (case Index version ''-k3s'' of Some i \<Rightarrow> take i version | None \<Rightarrow> version)
      else version)"

section \<open>The cluster and its data source\<close>

text \<open>
  What the calls to the cluster API and to the client configuration return. A typed
  client's \<open>Get\<close> returns an object and an error together, so the service account
  comes as a pair. A context of the raw configuration is its cluster name.
\<close>

record RawConfig =
  Contexts :: "(string \<times> string) list"
  CurrentContext :: string

record cluster =
  currentContext :: string
  Nodes_List :: "error + Node list"
  Pods_List :: "string \<Rightarrow> string \<Rightarrow> error + Pod list"
  Namespaces_Get :: "string \<Rightarrow> error option"
  ServiceAccounts_Get :: "string \<Rightarrow> string \<Rightarrow> ServiceAccount \<times> error option"
  Secrets_Get :: "string \<Rightarrow> string \<Rightarrow> error + Secret"
  cConfig_RawConfig :: "error + RawConfig"
  ServerVersion :: "error + string"

definition k8sComponentNamespace :: string where
  "k8sComponentNamespace = ''kube-system''"

definition serviceAccountDefault :: string where
  "serviceAccountDefault = ''default''"

section \<open>BOM assembler\<close>

definition NodeInfo :: "Node \<Rightarrow> NodeInfo" where
  "NodeInfo node =
     (let nodeRole = ''worker'';
          nodeRole = (if map_of (Node_Labels node) ''node-role.kubernetes.io/control-plane'' \<noteq> None
                      then ''master'' else nodeRole);
          nodeRole = (if map_of (Node_Labels node) ''node-role.kubernetes.io/master'' \<noteq> None
                      then ''master'' else nodeRole)
      in \<lparr>NodeInfo_NodeName = Node_Name node,
          NodeInfo_KubeletVersion = trimString (k8sVersions (Node_KubeletVersion node)) [''v'', ''V''],
          NodeInfo_ContainerRuntimeVersion = Node_ContainerRuntimeVersion node,
          NodeInfo_OsImage = Node_OSImage node,
          NodeInfo_Properties =
            [(''NodeRole'', nodeRole),
             (''HostName'', Node_Name node),
             (''KernelVersion'', Node_KernelVersion node),
             (''OperatingSystem'', Node_OperatingSystem node),
             (''Architecture'', Node_Architecture node)],
          NodeInfo_Images = []\<rparr>)"

definition CollectNodes :: "cluster \<Rightarrow> Component list \<Rightarrow> error + NodeInfo list" where
  "CollectNodes c components =
     (case Nodes_List c of
        Inl err \<Rightarrow>
          if IsNotFound err \<or> IsForbidden err then Inr [] else Inl err
      | Inr nodes \<Rightarrow>
          Inr (map (\<lambda>node.
                 (NodeInfo node)\<lparr>NodeInfo_Images :=
                    [imageId. names \<leftarrow> Node_Images node,
                         c \<leftarrow> components,
                         co \<leftarrow> Component_Containers c,
                         imageId \<leftarrow> [Container_Registry co @ ''/'' @ Container_Repository co
                                   @ '':'' @ Container_Version co],
                         imageId \<in> set names]\<rparr>)
               nodes))"

definition getImageIDsByStatuses :: "Pod \<Rightarrow> string list" where
  "getImageIDsByStatuses pod =
     (case (PodSpec_Containers (Pod_Spec pod), Pod_ContainerStatuses pod) of
        ([c], [st]) \<Rightarrow> [getImageID (Status_ImageID st)]
      | (containers, statuses) \<Rightarrow>
          (let statusMap = foldl (\<lambda>m status. AList.update (Status_Image status)
                                                 (Status_ImageID status) m) [] statuses
           in map (\<lambda>container.
                     case map_of statusMap (Container_Image container) of
                       Some imageId \<Rightarrow> getImageID imageId
                     | None \<Rightarrow> getImageID (Container_Image container))
                  containers))"

fun findComponentVersion :: "Container list \<Rightarrow> string \<Rightarrow> string" where
  "findComponentVersion [] name = []"
| "findComponentVersion (c # cs) name =
     (if Contains (Container_Version c) ''rke2'' \<or> Contains (Container_Version c) ''k3s''
      then k8sVersions (Container_Version c)
      else if Contains (Container_ID c) name then Container_Version c
      else findComponentVersion cs name)"

text \<open>
  The loop of \<open>PodInfo\<close> over the spec containers, from position \<open>i\<close>: a container
  that \<open>GetContainer\<close> rejects is skipped.
\<close>

fun podContainers :: "deps \<Rightarrow> string list \<Rightarrow> nat \<Rightarrow> PodContainer list \<Rightarrow> error + Container list" where
  "podContainers d ids i [] = Inr []"
| "podContainers d ids i (s # ss) =
     (case index ids i of
        Inl e \<Rightarrow> Inl e
      | Inr imageId \<Rightarrow>
          (case podContainers d ids (Suc i) ss of
             Inl e \<Rightarrow> Inl e
           | Inr containers \<Rightarrow>
               (case GetContainer d (Container_Image s) imageId of
                  Inl err \<Rightarrow> Inr containers
                | Inr container \<Rightarrow> Inr (container # containers))))"

definition PodInfo :: "deps \<Rightarrow> Pod \<Rightarrow> string \<Rightarrow> error + Component" where
  "PodInfo d pod labelSelector =
     (let ids = getImageIDsByStatuses pod in
      case podContainers d ids 0 (PodSpec_Containers (Pod_Spec pod)) of
        Inl e \<Rightarrow> Inl e
      | Inr containers \<Rightarrow>
          (let labels = Pod_Labels pod;
               name = lookupStr labels ''app.kubernetes.io/name'';
               version = lookupStr labels ''app.kubernetes.io/version'';
               props = AList.update ''Name'' (Pod_Name pod) [];
               props = AList.update ''Type'' (lookupStr labels ''app.kubernetes.io/component'') props;
               name' = (if name = [] then upstreamRepoByName (lookupStr labels labelSelector)
                        else name);
               props = (if name = []
                        then (case map_of CoreComponentPropertyType name' of
                                Some val \<Rightarrow> AList.update ''Type'' val props
                              | None \<Rightarrow> props)
                        else props);
               orgName = upstreamOrgByName d name';
               name'' = (if length orgName > 0 then orgName @ ''/'' @ name' else name');
               version' = (if version = []
                           then trimString (findComponentVersion containers
                                              (lookupStr labels labelSelector)) [''v'', ''V'']
                           else version)
           in Inr \<lparr>Component_Namespace = Pod_Namespace pod,
                   Component_Name = name'',
                   Component_Version = version',
                   Component_Properties = props,
                   Component_Containers = containers\<rparr>))"

definition collectComponents ::
  "deps \<Rightarrow> cluster \<Rightarrow> (string \<times> string) list \<Rightarrow> error + Component list" where
  "collectComponents d c labels =
     Inr (concat (map (\<lambda>(namespace, labelSelector).
            case Pods_List c namespace labelSelector of
              Inl err \<Rightarrow> []
            | Inr pods \<Rightarrow>
                concat (map (\<lambda>pod. case PodInfo d pod labelSelector of
                                      Inl err \<Rightarrow> []
                                    | Inr pi \<Rightarrow> [pi]) pods))
          labels))"

definition isOpenShift :: "cluster \<Rightarrow> bool" where
  "isOpenShift c =
     (case Namespaces_Get c ''openshift-kube-apiserver'' of
        None \<Rightarrow> True
      | Some err \<Rightarrow> \<not> IsNotFound err)"

definition CreateBomComponents :: "deps \<Rightarrow> cluster \<Rightarrow> string \<Rightarrow> error + Component list" where
  "CreateBomComponents d c namespace =
     (let labels = [(namespace, ''component'')];
          labels = (if namespace \<noteq> [] \<and> isOpenShift c
                    then [(''openshift-kube-apiserver'', ''apiserver''),
                          (''openshift-kube-controller-manager'', ''kube-controller-manager''),
                          (''openshift-kube-scheduler'', ''scheduler''),
                          (''openshift-etcd'', ''etcd'')]
                    else labels)
      in case collectComponents d c labels of
           Inl err \<Rightarrow> Inl err
         | Inr components \<Rightarrow>
             (let addonLabels = [(namespace, ''app.kubernetes.io/component=controller'')];
                  addonLabels = (if namespace = [] \<or> namespace = k8sComponentNamespace
                                 then AList.update k8sComponentNamespace ''k8s-app'' addonLabels
                                 else addonLabels)
              in case collectComponents d c addonLabels of
                   Inl err \<Rightarrow> Inl err
                 | Inr addons \<Rightarrow> Inr (components @ addons)))"

definition ClusterNameVersion :: "cluster \<Rightarrow> error + string \<times> string" where
  "ClusterNameVersion c =
     (case cConfig_RawConfig c of
        Inl err \<Rightarrow> Inl err
      | Inr rawCfg \<Rightarrow>
          (let clusterName = ''k8s.io/kubernetes'';
               clusterName =
                 (if length (Contexts rawCfg) > 0
                  then (let cur = (if currentContext c \<noteq> [] then currentContext c
                                   else CurrentContext rawCfg)
                        in case map_of (Contexts rawCfg) cur of
                             Some clusterContext \<Rightarrow> clusterContext
                           | None \<Rightarrow> clusterName)
                  else clusterName)
           in case ServerVersion c of
                Inl err \<Rightarrow> Inl err
              | Inr gitVersion \<Rightarrow> Inr (clusterName, gitVersion)))"

definition getClusterBomInfo ::
  "cluster \<Rightarrow> Component list \<Rightarrow> NodeInfo list \<Rightarrow> error + Result" where
  "getClusterBomInfo c components nodeInfo =
     (case ClusterNameVersion c of
        Inl err \<Rightarrow> Inl err
      | Inr (name, version) \<Rightarrow>
          Inr \<lparr>Result_Components = components,
               Result_ID = ''k8s.io/kubernetes'',
               Result_Type = ''Cluster'',
               Result_Version = trimString version [''v'', ''V''],
               Result_Properties = [(''Name'', name), (''Type'', ''cluster'')],
               Result_NodesInfo = nodeInfo\<rparr>)"

definition CreateClusterBom :: "deps \<Rightarrow> cluster \<Rightarrow> error + Result" where
  "CreateClusterBom d c =
     (case CreateBomComponents d c [] of
        Inl err \<Rightarrow> Inl err
      | Inr components \<Rightarrow>
          (case CollectNodes c components of
             Inl err \<Rightarrow> Inl err
           | Inr nodesInfo \<Rightarrow> getClusterBomInfo c components nodesInfo))"

text \<open>\<open>getCluster\<close> stores the server version with \<open>strings.TrimPrefix\<close>.\<close>

definition getCluster_serverVersion :: "string \<Rightarrow> string" where
  "getCluster_serverVersion gitVersion = TrimPrefix gitVersion ''v''"


section \<open>Credential resolver\<close>

definition SecretTypeDockerConfigJson :: string where
  "SecretTypeDockerConfigJson = ''kubernetes.io/dockerconfigjson''"

definition DockerConfigJsonKey :: string where
  "DockerConfigJsonKey = ''.dockerconfigjson''"

definition SecretTypeDockercfg :: string where
  "SecretTypeDockercfg = ''kubernetes.io/dockercfg''"

definition DockerConfigKey :: string where
  "DockerConfigKey = ''.dockercfg''"

text \<open>
  The inner loop of \<open>mapDockerRegistryServersToAuths\<close>, over the credentials one secret
  decodes to, in the order in which the run ranges over them.
\<close>

fun addAuths ::
  "deps \<Rightarrow> bool \<Rightarrow> (string \<times> Auth) list \<Rightarrow> (string \<times> Auth) list
     \<Rightarrow> error + (string \<times> Auth) list" where
  "addAuths d multiSecretSupport auths [] = Inr auths"
| "addAuths d multiSecretSupport auths ((authKey, auth) # rest) =
     (case GetServerFromDockerAuthKey d authKey of
        Inl err \<Rightarrow> Inl err
      | Inr server \<Rightarrow>
          (case map_of auths server of
             Some a \<Rightarrow>
               if multiSecretSupport
               then addAuths d multiSecretSupport
                      (AList.update server
                         \<lparr>Auth_Username = Auth_Username a @ '','' @ Auth_Username auth,
                          Auth_Password = Auth_Password a @ '','' @ Auth_Password auth\<rparr>
                         auths) rest
               else addAuths d multiSecretSupport (AList.update server auth auths) rest
           | None \<Rightarrow> addAuths d multiSecretSupport (AList.update server auth auths) rest))"

text \<open>The outer loop, over the secrets, from the map \<open>auths\<close> built so far.\<close>

fun mapSecrets ::
  "deps \<Rightarrow> bool \<Rightarrow> (string \<times> Auth) list \<Rightarrow> Secret list \<Rightarrow> error + (string \<times> Auth) list" where
  "mapSecrets d multiSecretSupport auths [] = Inr auths"
| "mapSecrets d multiSecretSupport auths (secret # rest) =
     (case (if Secret_Type secret = SecretTypeDockerConfigJson
            then Some (map_of (Secret_Data secret) DockerConfigJsonKey, False)
            else if Secret_Type secret = SecretTypeDockercfg
            then Some (map_of (Secret_Data secret) DockerConfigKey, True)
            else None) of
        None \<Rightarrow> mapSecrets d multiSecretSupport auths rest
      | Some (None, isLegacy) \<Rightarrow> mapSecrets d multiSecretSupport auths rest
      | Some (Some data, isLegacy) \<Rightarrow>
          (case Config_Read d data isLegacy of
             Inl err \<Rightarrow>
               Inl (Wrapf (Secret_Namespace secret @ ''/'' @ Secret_Name secret) err)
           | Inr dockerAuths \<Rightarrow>
               (case addAuths d multiSecretSupport auths dockerAuths of
                  Inl err \<Rightarrow> Inl err
                | Inr auths' \<Rightarrow> mapSecrets d multiSecretSupport auths' rest)))"

definition mapDockerRegistryServersToAuths ::
  "deps \<Rightarrow> Secret list \<Rightarrow> bool \<Rightarrow> error + (string \<times> Auth) list" where
  "mapDockerRegistryServersToAuths d imagePullSecrets multiSecretSupport =
     mapSecrets d multiSecretSupport [] imagePullSecrets"

definition GetWildcardServers :: "(string \<times> Auth) list \<Rightarrow> string list" where
  "GetWildcardServers auths = filter (\<lambda>server. HasPrefix server ''*.'') (map fst auths)"

fun matchSubDomain :: "string list \<Rightarrow> string \<Rightarrow> string" where
  "matchSubDomain [] subDomain = []"
| "matchSubDomain (domain # wildcardServers) subDomain =
     (let domainWithoutWildcard = Replace domain ''*'' [] in
      if HasSuffix subDomain domainWithoutWildcard then domain
      else matchSubDomain wildcardServers subDomain)"

text \<open>The function returns a pointer and an error: the pair of the two.\<close>

definition MapContainerNamesToDockerAuths ::
  "deps \<Rightarrow> string \<Rightarrow> (string \<times> Auth) list \<Rightarrow> Auth option \<times> error option" where
  "MapContainerNamesToDockerAuths d imageRef auths =
     (let wildcardServers = GetWildcardServers auths in
      case GetServerFromImageRef d imageRef of
        Inl err \<Rightarrow> (Some \<lparr>Auth_Username = [], Auth_Password = []\<rparr>, Some err)
      | Inr server \<Rightarrow>
          (case map_of auths server of
             Some auth \<Rightarrow> (Some auth, None)
           | None \<Rightarrow>
               if length wildcardServers > 0
               then (let wildcardDomain = matchSubDomain wildcardServers server in
                     if length wildcardDomain > 0
                     then (case map_of auths wildcardDomain of
                             Some auth \<Rightarrow> (Some auth, None)
                           | None \<Rightarrow> (None, None))
                     else (None, None))
               else (None, None)))"

section \<open>Unstructured resources\<close>

text \<open>
  The accessors of \<open>unstructured\<close>: a result \<open>Inr None\<close> is "not found", \<open>Inl\<close> an
  accessor error. An object is the list of its fields. The loop of
  \<open>NestedFieldNoCopy\<close> is \<open>nestedFieldFrom\<close>, with the fields walked so far: its
  error names the path up to the field that cannot be read.
\<close>

fun nestedFieldFrom :: "string list \<Rightarrow> json \<Rightarrow> string list \<Rightarrow> error + json option" where
  "nestedFieldFrom walked val [] = Inr (Some val)"
| "nestedFieldFrom walked val (field # flds) =
     (case val of
        JNull \<Rightarrow> Inr None
      | JObject m \<Rightarrow>
          (case map_of m field of
             None \<Rightarrow> Inr None
           | Some v \<Rightarrow> nestedFieldFrom (walked @ [field]) v flds)
      | _ \<Rightarrow> Inl (AccessorError (walked @ [field])))"

definition NestedFieldNoCopy :: "json \<Rightarrow> string list \<Rightarrow> error + json option" where
  "NestedFieldNoCopy val flds = nestedFieldFrom [] val flds"

definition NestedString :: "(string \<times> json) list \<Rightarrow> string list \<Rightarrow> error + string option" where
  "NestedString obj flds =
     (case NestedFieldNoCopy (JObject obj) flds of
        Inl err \<Rightarrow> Inl err
      | Inr None \<Rightarrow> Inr None
      | Inr (Some val) \<Rightarrow>
          (case val of JString s \<Rightarrow> Inr (Some s) | _ \<Rightarrow> Inl (AccessorError flds)))"

definition NestedSlice :: "(string \<times> json) list \<Rightarrow> string list \<Rightarrow> error + json list option" where
  "NestedSlice obj flds =
     (case NestedFieldNoCopy (JObject obj) flds of
        Inl err \<Rightarrow> Inl err
      | Inr None \<Rightarrow> Inr None
      | Inr (Some val) \<Rightarrow>
          (case val of JArray xs \<Rightarrow> Inr (Some xs) | _ \<Rightarrow> Inl (AccessorError flds)))"

definition NestedMap ::
  "(string \<times> json) list \<Rightarrow> string list \<Rightarrow> error + (string \<times> json) list option" where
  "NestedMap obj flds =
     (case NestedFieldNoCopy (JObject obj) flds of
        Inl err \<Rightarrow> Inl err
      | Inr None \<Rightarrow> Inr None
      | Inr (Some val) \<Rightarrow>
          (case val of JObject m \<Rightarrow> Inr (Some m) | _ \<Rightarrow> Inl (AccessorError flds)))"

text \<open>\<open>GetKind\<close> and \<open>GetNamespace\<close> give the empty string when the field is not a string.\<close>

definition getNestedString :: "(string \<times> json) list \<Rightarrow> string list \<Rightarrow> string" where
  "getNestedString obj flds =
     (case NestedString obj flds of Inr (Some s) \<Rightarrow> s | _ \<Rightarrow> [])"

definition GetKind :: "(string \<times> json) list \<Rightarrow> string" where
  "GetKind obj = getNestedString obj [''kind'']"

definition GetNamespace :: "(string \<times> json) list \<Rightarrow> string" where
  "GetNamespace obj = getNestedString obj [''metadata'', ''namespace'']"

definition KindPod :: string where
  "KindPod = ''Pod''"

definition KindJob :: string where
  "KindJob = ''Job''"

definition KindCronJob :: string where
  "KindCronJob = ''CronJob''"

definition KindReplicaSet :: string where
  "KindReplicaSet = ''ReplicaSet''"

definition KindReplicationController :: string where
  "KindReplicationController = ''ReplicationController''"

definition KindStatefulSet :: string where
  "KindStatefulSet = ''StatefulSet''"

definition KindDaemonSet :: string where
  "KindDaemonSet = ''DaemonSet''"

definition KindDeployment :: string where
  "KindDeployment = ''Deployment''"

section \<open>Pull secrets of a workload\<close>

definition mapToPodSpec :: "deps \<Rightarrow> (string \<times> json) list \<Rightarrow> error + PodSpec option" where
  "mapToPodSpec d objectMap =
     (case Decode d objectMap of
        (ps, Some err) \<Rightarrow>
          if length (PodSpec_Containers ps) = 0 then Inl err else Inr (Some ps)
      | (ps, None) \<Rightarrow> Inr (Some ps))"

text \<open>The three branches of \<open>getWorkloadPodSpec\<close> differ in the path only.\<close>

definition podSpecAt :: "deps \<Rightarrow> (string \<times> json) list \<Rightarrow> string list \<Rightarrow> error + PodSpec option" where
  "podSpecAt d un flds =
     (case NestedMap un flds of
        Inl err \<Rightarrow> Inl err
      | Inr None \<Rightarrow> Inl NoPodSpec
      | Inr (Some objectMap) \<Rightarrow> mapToPodSpec d objectMap)"

definition getWorkloadPodSpec :: "deps \<Rightarrow> (string \<times> json) list \<Rightarrow> error + PodSpec option" where
  "getWorkloadPodSpec d un =
     (if GetKind un = KindPod then podSpecAt d un [''spec'']
      else if GetKind un = KindCronJob
      then podSpecAt d un [''spec'', ''jobTemplate'', ''spec'', ''template'', ''spec'']
      else if GetKind un \<in> set [KindDeployment, KindReplicaSet, KindReplicationController,
                                  KindStatefulSet, KindDaemonSet, KindJob]
      then podSpecAt d un [''spec'', ''template'', ''spec'']
      else Inr None)"

definition getServiceAccountByPodSpec ::
  "cluster \<Rightarrow> PodSpec \<Rightarrow> string \<Rightarrow> ServiceAccount \<times> error option" where
  "getServiceAccountByPodSpec r spec ns =
     (let serviceAccountName = (if PodSpec_ServiceAccountName spec = []
                                then serviceAccountDefault
                                else PodSpec_ServiceAccountName spec)
      in case ServiceAccounts_Get r ns serviceAccountName of
           (sa, Some err) \<Rightarrow> (sa, Some (Wrapf (ns @ ''/'' @ serviceAccountName) err))
         | (sa, None) \<Rightarrow> (sa, None))"

fun ListByLocalObjectReferences :: "cluster \<Rightarrow> string list \<Rightarrow> string \<Rightarrow> error + Secret list" where
  "ListByLocalObjectReferences r [] ns = Inr []"
| "ListByLocalObjectReferences r (secretRef # refs) ns =
     (if secretRef = [] then ListByLocalObjectReferences r refs ns
      else
        (case Secrets_Get r ns secretRef of
           Inl err \<Rightarrow>
             if IsNotFound err \<or> IsForbidden err then ListByLocalObjectReferences r refs ns
             else Inl (Wrapf (ns @ ''/'' @ secretRef) err)
         | Inr secret \<Rightarrow>
             (case ListByLocalObjectReferences r refs ns of
                Inl err \<Rightarrow> Inl err
              | Inr secrets \<Rightarrow> Inr (secret # secrets))))"

definition ListImagePullSecretsByPodSpec ::
  "deps \<Rightarrow> cluster \<Rightarrow> PodSpec option \<Rightarrow> string \<Rightarrow> error + (string \<times> Auth) list" where
  "ListImagePullSecretsByPodSpec d r spec ns =
     (case spec of
        None \<Rightarrow> Inr []
      | Some spec \<Rightarrow>
          (case getServiceAccountByPodSpec r spec ns of
             (sa, Some err) \<Rightarrow>
               if \<not> IsNotFound err \<and> \<not> IsForbidden err then Inl err
               else
                 (case ListByLocalObjectReferences r
                         (ServiceAccount_ImagePullSecrets sa @ PodSpec_ImagePullSecrets spec) ns of
                    Inl err \<Rightarrow> Inl err
                  | Inr secrets \<Rightarrow> mapDockerRegistryServersToAuths d secrets True)
           | (sa, None) \<Rightarrow>
               (case ListByLocalObjectReferences r
                       (ServiceAccount_ImagePullSecrets sa @ PodSpec_ImagePullSecrets spec) ns of
                  Inl err \<Rightarrow> Inl err
                | Inr secrets \<Rightarrow> mapDockerRegistryServersToAuths d secrets True)))"

definition AuthByResource ::
  "deps \<Rightarrow> cluster \<Rightarrow> (string \<times> json) list \<Rightarrow> error + (string \<times> Auth) list" where
  "AuthByResource d r resource =
     (case getWorkloadPodSpec d resource of
        Inl err \<Rightarrow> Inl err
      | Inr podSpec \<Rightarrow>
          (case ListImagePullSecretsByPodSpec d r podSpec (GetNamespace resource) of
             Inl err \<Rightarrow> Inl err
           | Inr serverAuths \<Rightarrow> Inr serverAuths))"

section \<open>Resource-to-artifact extractor\<close>

record Artifact =
  Artifact_Namespace :: string
  Artifact_Kind :: string
  Artifact_Name :: string
  Artifact_Images :: "string list"
  Artifact_RawResource :: "(string \<times> json) list"

text \<open>
  The loop of \<open>extractImages\<close>. The type assertion on an entry that is not an object
  panics.
\<close>

fun containerImages :: "json list \<Rightarrow> error + string list" where
  "containerImages [] = Inr []"
| "containerImages (container # containers) =
     (case container of
        JObject m \<Rightarrow>
          (case NestedString m [''image''] of
             Inl err \<Rightarrow> Inl err
           | Inr found \<Rightarrow>
               (case containerImages containers of
                  Inl err \<Rightarrow> Inl err
                | Inr images \<Rightarrow>
                    Inr (case found of Some name \<Rightarrow> name # images | None \<Rightarrow> images)))
      | _ \<Rightarrow> Inl (Panic ''interface conversion''))"

definition extractImages :: "(string \<times> json) list \<Rightarrow> string list \<Rightarrow> error + string list" where
  "extractImages resource keys =
     (case NestedSlice resource keys of
        Inl err \<Rightarrow> Inl err
      | Inr None \<Rightarrow> Inr []
      | Inr (Some containers) \<Rightarrow> containerImages containers)"

definition FromResource :: "(string \<times> json) list \<Rightarrow> error + Artifact" where
  "FromResource resource =
     (let nestedKeys =
            (if GetKind resource = KindPod then [''spec'']
             else if GetKind resource = KindCronJob
             then [''spec'', ''jobTemplate'', ''spec'', ''template'', ''spec'']
             else [''spec'', ''template'', ''spec''])
      in case extractImages resource (nestedKeys @ [''containers'']) of
           Inl err \<Rightarrow> Inl err
         | Inr containersImages \<Rightarrow>
             (case extractImages resource (nestedKeys @ [''ephemeralContainers'']) of
                Inl err \<Rightarrow> Inl err
              | Inr ephemeralContainersImages \<Rightarrow>
                  (case extractImages resource (nestedKeys @ [''initContainers'']) of
                     Inl err \<Rightarrow> Inl err
                   | Inr initContainersImages \<Rightarrow>
                       (case NestedString resource [''metadata'', ''name''] of
                          Inl err \<Rightarrow> Inl err
                        | Inr name \<Rightarrow>
                            Inr \<lparr>Artifact_Namespace = GetNamespace resource,
                                 Artifact_Kind = GetKind resource,
                                 Artifact_Name = (case name of Some n \<Rightarrow> n | None \<Rightarrow> []),
                                 Artifact_Images = containersImages
                                    @ ephemeralContainersImages @ initContainersImages,
                                 Artifact_RawResource = resource\<rparr>))))"


section \<open>Notions of the specification\<close>

text \<open>
  The part of a string before its first \<open>@\<close> (the whole string when it has none), and
  the component after the first \<open>@\<close>, up to the next one.
\<close>

definition beforeAt :: "string \<Rightarrow> string" where
  "beforeAt s = takeWhile (\<lambda>c. c \<noteq> CHR ''@'') s"

definition afterAt :: "string \<Rightarrow> string" where
  "afterAt s =
     (if CHR ''@'' \<in> set s
      then takeWhile (\<lambda>c. c \<noteq> CHR ''@'') (tl (dropWhile (\<lambda>c. c \<noteq> CHR ''@'') s))
      else s)"

text \<open>A string of exactly 64 hexadecimal characters.\<close>

definition isHexByte :: "char \<Rightarrow> bool" where
  "isHexByte c =
     (let n = (of_char c :: nat)
      in (48 \<le> n \<and> n \<le> 57) \<or> (97 \<le> n \<and> n \<le> 102) \<or> (65 \<le> n \<and> n \<le> 70))"

definition hex64 :: "string \<Rightarrow> bool" where
  "hex64 s = (length s = 64 \<and> list_all isHexByte s)"

section \<open>Sample parameters\<close>

text \<open>
  An instance of the functions of the other packages, to evaluate the model on concrete
  inputs: a reference is parsed as a repository of the default registry with the tag
  \<open>latest\<close>, a credential payload has the form \<open>server user password\<close>, an
  authentication key is its own server, and the server of an image reference is what
  precedes its first slash.
\<close>

definition sampleDeps :: deps where
  "sampleDeps =
     \<lparr>ParseReference = (\<lambda>n. if n = [] then Inl (ExternalError ''could not parse reference'')
                             else Inr \<lparr>RepositoryStr = ''library/'' @ n,
                                       RegistryStr = ''index.docker.io'',
                                       Identifier = ''latest''\<rparr>),
      unicodeToLower = (\<lambda>s. s),
      Config_Read = (\<lambda>data isLegacy.
                        case Split data CHR '' '' of
                          [server, user, pass] \<Rightarrow>
                            Inr [(server, \<lparr>Auth_Username = user, Auth_Password = pass\<rparr>)]
                        | _ \<Rightarrow> Inl (ExternalError ''malformed payload'')),
      GetServerFromDockerAuthKey = (\<lambda>k. Inr k),
      GetServerFromImageRef = (\<lambda>r. Inr (takeWhile (\<lambda>c. c \<noteq> CHR ''/'') r)),
      Decode = (\<lambda>m. (\<lparr>PodSpec_Containers = [], PodSpec_ImagePullSecrets = [],
                         PodSpec_ServiceAccountName = []\<rparr>, None))\<rparr>"


text \<open>
  The pod template of a resource by its kind, the field at a path of a JSON tree, the
  images a list of container entries declares (an entry without a string \<open>image\<close>
  declares none), and the images declared under one of the three container lists of the
  pod template.
\<close>

definition podTemplatePath :: "string \<Rightarrow> string list" where
  "podTemplatePath kind =
     (if kind = ''Pod'' then [''spec'']
      else if kind = ''CronJob'' then [''spec'', ''jobTemplate'', ''spec'', ''template'', ''spec'']
      else [''spec'', ''template'', ''spec''])"

fun fieldAt :: "json \<Rightarrow> string list \<Rightarrow> json option" where
  "fieldAt v [] = Some v"
| "fieldAt v (k # ks) =
     (case v of
        JObject m \<Rightarrow> (case map_of m k of None \<Rightarrow> None | Some w \<Rightarrow> fieldAt w ks)
      | _ \<Rightarrow> None)"

definition declaredImages :: "json list \<Rightarrow> string list" where
  "declaredImages entries =
     concat (map (\<lambda>e. case e of
                         JObject m \<Rightarrow> (case map_of m ''image'' of
                                         Some (JString s) \<Rightarrow> [s]
                                       | _ \<Rightarrow> [])
                       | _ \<Rightarrow> []) entries)"

definition imagesUnder :: "(string \<times> json) list \<Rightarrow> string \<Rightarrow> string list" where
  "imagesUnder resource name =
     (case fieldAt (JObject resource) (podTemplatePath (GetKind resource) @ [name]) of
        Some (JArray entries) \<Rightarrow> declaredImages entries
      | _ \<Rightarrow> [])"

text \<open>
  A path is blocked in a JSON tree when, before its end, it reaches a value that is neither
  an object nor null. A container list of a resource is readable when its path is not
  blocked and holds nothing or an array of objects whose \<open>image\<close>, if any, is a
  string; the name is readable when its path is not blocked and holds nothing or a
  string. A resource is readable when its three container lists and its name are.
\<close>

fun blocked :: "json \<Rightarrow> string list \<Rightarrow> bool" where
  "blocked v [] = False"
| "blocked v (k # ks) =
     (case v of
        JNull \<Rightarrow> False
      | JObject m \<Rightarrow> (case map_of m k of None \<Rightarrow> False | Some w \<Rightarrow> blocked w ks)
      | _ \<Rightarrow> True)"

definition entryReadable :: "json \<Rightarrow> bool" where
  "entryReadable e =
     (case e of
        JObject m \<Rightarrow> (case map_of m ''image'' of
                        None \<Rightarrow> True
                      | Some (JString s) \<Rightarrow> True
                      | Some _ \<Rightarrow> False)
      | _ \<Rightarrow> False)"

definition listReadable :: "(string \<times> json) list \<Rightarrow> string \<Rightarrow> bool" where
  "listReadable resource name =
     (let path = podTemplatePath (GetKind resource) @ [name] in
      \<not> blocked (JObject resource) path
      \<and> (case fieldAt (JObject resource) path of
            None \<Rightarrow> True
          | Some (JArray entries) \<Rightarrow> list_all entryReadable entries
          | Some _ \<Rightarrow> False))"

definition nameReadable :: "(string \<times> json) list \<Rightarrow> bool" where
  "nameReadable resource =
     (\<not> blocked (JObject resource) [''metadata'', ''name'']
      \<and> (case fieldAt (JObject resource) [''metadata'', ''name''] of
            None \<Rightarrow> True
          | Some (JString s) \<Rightarrow> True
          | Some _ \<Rightarrow> False))"

definition readable :: "(string \<times> json) list \<Rightarrow> bool" where
  "readable resource =
     (listReadable resource ''containers'' \<and> listReadable resource ''ephemeralContainers''
      \<and> listReadable resource ''initContainers'' \<and> nameReadable resource)"

definition declaredName :: "(string \<times> json) list \<Rightarrow> string" where
  "declaredName resource =
     (case fieldAt (JObject resource) [''metadata'', ''name''] of
        Some (JString s) \<Rightarrow> s
      | _ \<Rightarrow> [])"

text \<open>Sample resources.\<close>

definition cronJobExample :: "(string \<times> json) list" where
  "cronJobExample =
     [(''kind'', JString ''CronJob''),
      (''metadata'', JObject [(''name'', JString ''nightly''), (''namespace'', JString ''default'')]),
      (''spec'', JObject [(''jobTemplate'', JObject [(''spec'', JObject [(''template'',
         JObject [(''spec'', JObject [(''containers'',
           JArray [JObject [(''name'', JString ''web''), (''image'', JString ''nginx:1.25'')]])])])])])])]"

definition podExample :: "(string \<times> json) list" where
  "podExample =
     [(''kind'', JString ''Pod''),
      (''metadata'', JObject [(''name'', JString ''p'')]),
      (''spec'', JObject
         [(''initContainers'', JArray [JObject [(''image'', JString ''a'')]]),
          (''containers'', JArray []),
          (''ephemeralContainers'', JArray [JObject [(''image'', JString ''b'')]])])]"

definition widgetExample :: "(string \<times> json) list" where
  "widgetExample =
     [(''kind'', JString ''Widget''),
      (''spec'', JObject [(''template'', JObject [(''spec'', JObject
         [(''containers'', JArray [JObject [(''image'', JString ''busybox'')],
                                   JObject [(''name'', JString ''sidecar'')]])])])])]"



text \<open>
  Sample clusters: one that answers every call, and the same with the node listing
  forbidden, with the node listing failing on the transport, and with every pod
  listing failing on the transport.
\<close>

definition sampleCluster :: cluster where
  "sampleCluster =
     \<lparr>currentContext = [],
      Nodes_List = Inr [],
      Pods_List = (\<lambda>namespace labelSelector. Inr []),
      Namespaces_Get = (\<lambda>name. Some (StatusError NotFound)),
      ServiceAccounts_Get = (\<lambda>ns name. (\<lparr>ServiceAccount_ImagePullSecrets = []\<rparr>, None)),
      Secrets_Get = (\<lambda>ns name. Inl (StatusError NotFound)),
      cConfig_RawConfig = Inr \<lparr>Contexts = [], CurrentContext = []\<rparr>,
      ServerVersion = Inr ''v1.30.0''\<rparr>"

definition connectionRefused :: error where
  "connectionRefused = StatusError (OtherReason ''connection refused'')"

definition forbiddenNodesCluster :: cluster where
  "forbiddenNodesCluster = sampleCluster\<lparr>Nodes_List := Inl (StatusError Forbidden)\<rparr>"

definition unreachableNodesCluster :: cluster where
  "unreachableNodesCluster = sampleCluster\<lparr>Nodes_List := Inl connectionRefused\<rparr>"

definition unreachablePodsCluster :: cluster where
  "unreachablePodsCluster =
     sampleCluster\<lparr>Pods_List := (\<lambda>namespace labelSelector. Inl connectionRefused)\<rparr>"












text \<open>
  A key of the credential map matches a registry host as a wildcard when it starts with
  \<open>*.\<close> and the key without its \<open>*\<close> is a suffix of the host.
\<close>

definition wildcardMatch :: "string \<Rightarrow> string \<Rightarrow> bool" where
  "wildcardMatch key host = (HasPrefix key ''*.'' \<and> HasSuffix host (tl key))"

text \<open>A sample credential map with a wildcard key only.\<close>

definition wildcardOnly :: "(string \<times> Auth) list" where
  "wildcardOnly = [(''*.example.com'', \<lparr>Auth_Username = ''dave'', Auth_Password = ''pw''\<rparr>)]"



text \<open>
  The map from a status's image to its image ID that \<open>getImageIDsByStatuses\<close> builds,
  and the status a declared image is correlated with: the last one whose image field
  equals it.
\<close>

definition statusMap :: "ContainerStatus list \<Rightarrow> (string \<times> string) list" where
  "statusMap statuses =
     foldl (\<lambda>m status. AList.update (Status_Image status) (Status_ImageID status) m) [] statuses"

definition lastStatusFor :: "ContainerStatus list \<Rightarrow> string \<Rightarrow> ContainerStatus option" where
  "lastStatusFor statuses img = find (\<lambda>st. Status_Image st = img) (rev statuses)"

text \<open>
  The organisations with the component names each owns, the canonical name of a raw
  label value (the repo-name table, the value itself when it has no entry), the
  organisation owning a name (compared in lower case) and the name prefixed by it.
\<close>

definition orgMembers :: "(string \<times> string list) list" where
  "orgMembers =
     [(''k8s.io'', [''controller-manager'', ''kubelet'', ''apiserver'', ''kubectl'', ''kubernetes'',
                   ''kube-scheduler'', ''kube-proxy'', ''cloud-provider'', ''ingress-nginx'']),
      (''sigs.k8s.io'', [''secrets-store-csi-driver'']),
      (''go.etcd.io'', [''etcd/v3''])]"

definition owningOrg :: "(string \<Rightarrow> string) \<Rightarrow> string \<Rightarrow> string option" where
  "owningOrg lower name =
     map_option fst (find (\<lambda>(org, members). lower name \<in> set members) orgMembers)"

definition canonicalName :: "string \<Rightarrow> string" where
  "canonicalName raw = (case map_of UpstreamRepoName raw of Some name \<Rightarrow> name | None \<Rightarrow> raw)"

definition qualifiedName :: "(string \<Rightarrow> string) \<Rightarrow> string \<Rightarrow> string" where
  "qualifiedName lower name =
     (case owningOrg lower name of Some org \<Rightarrow> org @ ''/'' @ name | None \<Rightarrow> name)"

text \<open>
  Case-insensitive equality of ASCII strings: two bytes are the same letter when they are
  equal or the upper and the lower case of one letter, two strings are equal in this sense
  when they are so byte by byte. The organisation owning a name in this sense, and the
  name prefixed by it.
\<close>

definition isUpperByte :: "char \<Rightarrow> bool" where
  "isUpperByte c = (65 \<le> (of_char c :: nat) \<and> (of_char c :: nat) \<le> 90)"

definition sameLetter :: "char \<Rightarrow> char \<Rightarrow> bool" where
  "sameLetter x y =
     (x = y
      \<or> (isUpperByte x \<and> (of_char y :: nat) = of_char x + 32)
      \<or> (isUpperByte y \<and> (of_char x :: nat) = of_char y + 32))"

definition equalFold :: "string \<Rightarrow> string \<Rightarrow> bool" where
  "equalFold a b = list_all2 sameLetter a b"

definition owningOrgFold :: "string \<Rightarrow> string option" where
  "owningOrgFold name =
     map_option fst (find (\<lambda>(org, members). list_ex (equalFold name) members) orgMembers)"

definition qualifiedNameFold :: "string \<Rightarrow> string" where
  "qualifiedNameFold name =
     (case owningOrgFold name of Some org \<Rightarrow> org @ ''/'' @ name | None \<Rightarrow> name)"

text \<open>Sample pods.\<close>

definition apiServerPod :: Pod where
  "apiServerPod =
     \<lparr>Pod_Name = ''kube-apiserver-master'', Pod_Namespace = ''kube-system'',
      Pod_Labels = [(''component'', ''api server''), (''tier'', ''control-plane'')],
      Pod_Spec = \<lparr>PodSpec_Containers = [], PodSpec_ImagePullSecrets = [],
                  PodSpec_ServiceAccountName = []\<rparr>,
      Pod_ContainerStatuses = []\<rparr>"

definition mixedCasePod :: Pod where
  "mixedCasePod =
     \<lparr>Pod_Name = ''kubelet-7'', Pod_Namespace = ''kube-system'',
      Pod_Labels = [(''component'', ''Kubelet'')],
      Pod_Spec = \<lparr>PodSpec_Containers = [], PodSpec_ImagePullSecrets = [],
                  PodSpec_ServiceAccountName = []\<rparr>,
      Pod_ContainerStatuses = []\<rparr>"



text \<open>
  The containers of a pod that \<open>GetContainer\<close> accepts, in order, each with the image
  ID at its position.
\<close>

definition parsedContainers :: "deps \<Rightarrow> PodContainer list \<Rightarrow> string list \<Rightarrow> Container list" where
  "parsedContainers d containers ids =
     [c. (s, imageId) \<leftarrow> zip containers ids,
         Inr c \<leftarrow> [GetContainer d (Container_Image s) imageId]]"

text \<open>
  More sample pods: one container and one status whose image strings differ; two
  containers and one status; a pod that has not started, none of whose containers can be
  parsed, and a cluster that lists it.
\<close>

definition singlePod :: Pod where
  "singlePod =
     \<lparr>Pod_Name = ''web-0'', Pod_Namespace = ''default'', Pod_Labels = [],
      Pod_Spec = \<lparr>PodSpec_Containers = [\<lparr>Container_Image = ''nginx:1.25''\<rparr>],
                  PodSpec_ImagePullSecrets = [], PodSpec_ServiceAccountName = []\<rparr>,
      Pod_ContainerStatuses =
        [\<lparr>Status_Image = ''docker.io/library/nginx:1.25'',
          Status_ImageID = ''docker.io/library/nginx@sha256:0123456789abcdef0123456789abcdef0123456789abcdef0123456789abcdef''\<rparr>]\<rparr>"

definition twoContainerPod :: Pod where
  "twoContainerPod =
     \<lparr>Pod_Name = ''web-1'', Pod_Namespace = ''default'', Pod_Labels = [],
      Pod_Spec = \<lparr>PodSpec_Containers =
                    [\<lparr>Container_Image = ''app:1''\<rparr>,
                     \<lparr>Container_Image = ''sidecar@sha256:aaaaaaaaaaaaaaaaaaaaaaaaaaaaaaaaaaaaaaaaaaaaaaaaaaaaaaaaaaaaaaaa''\<rparr>],
                  PodSpec_ImagePullSecrets = [], PodSpec_ServiceAccountName = []\<rparr>,
      Pod_ContainerStatuses =
        [\<lparr>Status_Image = ''app:1'',
          Status_ImageID = ''registry.io/app@sha256:bbbbbbbbbbbbbbbbbbbbbbbbbbbbbbbbbbbbbbbbbbbbbbbbbbbbbbbbbbbbbbbb''\<rparr>]\<rparr>"

definition unparsablePod :: Pod where
  "unparsablePod =
     \<lparr>Pod_Name = ''pending-0'', Pod_Namespace = ''kube-system'',
      Pod_Labels = [(''k8s-app'', ''metrics'')],
      Pod_Spec = \<lparr>PodSpec_Containers =
                    [\<lparr>Container_Image = []\<rparr>, \<lparr>Container_Image = ''busybox:1.36''\<rparr>],
                  PodSpec_ImagePullSecrets = [], PodSpec_ServiceAccountName = []\<rparr>,
      Pod_ContainerStatuses = []\<rparr>"

definition pendingPodCluster :: cluster where
  "pendingPodCluster =
     sampleCluster\<lparr>Pods_List := (\<lambda>namespace labelSelector.
        if namespace = ''kube-system'' \<and> labelSelector = ''k8s-app''
        then Inr [unparsablePod] else Inr [])\<rparr>"

text \<open>The same cluster with the pod listing of the controller selector failing.\<close>

definition partlyUnreachableCluster :: cluster where
  "partlyUnreachableCluster =
     pendingPodCluster\<lparr>Pods_List := (\<lambda>namespace labelSelector.
        if labelSelector = ''app.kubernetes.io/component=controller''
        then Inl connectionRefused
        else Pods_List pendingPodCluster namespace labelSelector)\<rparr>"


text \<open>
  A version without its leading \<open>v\<close>s, then without its leading \<open>V\<close>s, then
  without the white space around it.
\<close>

definition leadingTrimmed :: "string \<Rightarrow> string" where
  "leadingTrimmed version =
     TrimSpace (dropWhile (\<lambda>c. c = CHR ''V'') (dropWhile (\<lambda>c. c = CHR ''v'') version))"

text \<open>A sample node with a given kubelet version, and a resource that is not a workload.\<close>

definition sampleNode :: "string \<Rightarrow> Node" where
  "sampleNode kubeletVersion =
     \<lparr>Node_Name = ''node-1'',
      Node_Labels = [(''node-role.kubernetes.io/control-plane'', [])],
      Node_KubeletVersion = kubeletVersion,
      Node_ContainerRuntimeVersion = ''containerd://1.7.2'',
      Node_OSImage = ''Ubuntu 22.04'',
      Node_KernelVersion = ''5.15.0'',
      Node_OperatingSystem = ''linux'',
      Node_Architecture = ''amd64'',
      Node_Images = []\<rparr>"

definition serviceExample :: "(string \<times> json) list" where
  "serviceExample =
     [(''kind'', JString ''Service''),
      (''metadata'', JObject [(''name'', JString ''web''), (''namespace'', JString ''default'')]),
      (''spec'', JObject [(''selector'', JObject [(''app'', JString ''web'')])])]"



section \<open>Properties of the image reference parser\<close>

lemma Contains_byte: "Contains s [c] = (c \<in> set s)"
  unfolding Contains_def
  by (induction s) (auto simp: HasPrefix_def)

lemma splitByte_unfold:
  "splitByte sep cur s =
     (rev cur @ takeWhile (\<lambda>c. c \<noteq> sep) s) #
       (case dropWhile (\<lambda>c. c \<noteq> sep) s of [] \<Rightarrow> [] | x # r \<Rightarrow> splitByte sep [] r)"
  by (induction s arbitrary: cur) auto

lemma Split_first: "index (Split s sep) 0 = Inr (takeWhile (\<lambda>c. c \<noteq> sep) s)"
proof -
  have "hd (Split s sep) = takeWhile (\<lambda>c. c \<noteq> sep) s" and "Split s sep \<noteq> []"
    unfolding Split_def by (subst splitByte_unfold, simp)+
  then show ?thesis
    by (simp add: index_def hd_conv_nth)
qed

lemma Split_second:
  assumes "sep \<in> set s"
  shows "index (Split s sep) (Suc 0) =
           Inr (takeWhile (\<lambda>c. c \<noteq> sep) (tl (dropWhile (\<lambda>c. c \<noteq> sep) s)))"
proof -
  from assms obtain x r where dw: "dropWhile (\<lambda>c. c \<noteq> sep) s = x # r"
    by (cases "dropWhile (\<lambda>c. c \<noteq> sep) s") (auto simp: dropWhile_eq_Nil_conv)
  have "Split s sep = takeWhile (\<lambda>c. c \<noteq> sep) s # splitByte sep [] r"
    unfolding Split_def by (subst splitByte_unfold) (simp add: dw)
  also have "splitByte sep [] r = takeWhile (\<lambda>c. c \<noteq> sep) r #
       (case dropWhile (\<lambda>c. c \<noteq> sep) r of [] \<Rightarrow> [] | x # r \<Rightarrow> splitByte sep [] r)"
    by (subst splitByte_unfold) simp
  finally show ?thesis
    by (simp add: index_def dw)
qed

lemma extractDigest_eq:
  "extractDigest imageId = Inr (TrimPrefix (afterAt imageId) ''sha256:'')"
  by (simp add: extractDigest_def afterAt_def Contains_byte Split_second Canonical_def)

lemma declared_name:
  "(if Contains imageName ''@'' then index (Split imageName CHR ''@'') 0 else Inr imageName)
     = Inr (beforeAt imageName)"
  by (simp add: Split_first beforeAt_def Contains_byte) (auto simp: eq_commute [of imageName])

text \<open>
  C1, as the code has it. For a declared name whose part before \<open>@\<close> the reference
  grammar accepts, \<open>GetContainer\<close> takes as digest the component of the image ID after
  its first \<open>@\<close> (the whole image ID when it has none) with a prefix \<open>sha256:\<close>
  stripped. It fails, with the "unable to parse digest" error and with no other error,
  exactly when that digest is not 64 bytes long; otherwise the container it returns has
  that digest. Only the length is checked: the bytes need not be hexadecimal digits.
\<close>

theorem GetContainer_digest_length:
  assumes "ParseReference d (beforeAt imageName) = Inr ref"
  shows "case GetContainer d imageName imageId of
           Inl e \<Rightarrow> e = UnableToParseDigest imageId (beforeAt imageName)
                     \<and> length (TrimPrefix (afterAt imageId) ''sha256:'') \<noteq> 64
         | Inr c \<Rightarrow> Container_Digest c = TrimPrefix (afterAt imageId) ''sha256:''
                     \<and> length (TrimPrefix (afterAt imageId) ''sha256:'') = 64"
  unfolding GetContainer_def declared_name
  by (simp add: assms extractDigest_eq Canonical_Size_def Let_def)

theorem GetContainer_digest_length_witness:
  "ParseReference sampleDeps (beforeAt ''nginx@sha256:0000'')
     = Inr \<lparr>RepositoryStr = ''library/nginx'', RegistryStr = ''index.docker.io'',
            Identifier = ''latest''\<rparr>
   \<and> (case GetContainer sampleDeps ''nginx@sha256:0000''
              ''docker.io/library/nginx@sha256:0123456789abcdef0123456789abcdef0123456789abcdef0123456789abcdef'' of
         Inl e \<Rightarrow> False
       | Inr c \<Rightarrow> Container_Digest c
                    = ''0123456789abcdef0123456789abcdef0123456789abcdef0123456789abcdef'')"
proof -
  have h: "ParseReference sampleDeps (beforeAt ''nginx@sha256:0000'')
     = Inr \<lparr>RepositoryStr = ''library/nginx'', RegistryStr = ''index.docker.io'',
            Identifier = ''latest''\<rparr>"
    by (simp add: sampleDeps_def beforeAt_def)
  have a: "TrimPrefix (afterAt ''docker.io/library/nginx@sha256:0123456789abcdef0123456789abcdef0123456789abcdef0123456789abcdef'') ''sha256:''
      = ''0123456789abcdef0123456789abcdef0123456789abcdef0123456789abcdef''"
    by (simp add: afterAt_def TrimPrefix_def HasPrefix_def)
  show ?thesis
    using h GetContainer_digest_length [OF h,
      of "''docker.io/library/nginx@sha256:0123456789abcdef0123456789abcdef0123456789abcdef0123456789abcdef''"]
    by (simp add: a split: sum.splits)
qed

text \<open>
  The claim as written fails: 64 bytes that are not hexadecimal digits are accepted as
  a digest.
\<close>

theorem GetContainer_non_hex_digest_accepted:
  "ParseReference sampleDeps ''nginx''
     = Inr \<lparr>RepositoryStr = ''library/nginx'', RegistryStr = ''index.docker.io'',
            Identifier = ''latest''\<rparr>
   \<and> GetContainer sampleDeps ''nginx''
        ''sha256:zzzzzzzzzzzzzzzzzzzzzzzzzzzzzzzzzzzzzzzzzzzzzzzzzzzzzzzzzzzzzzzz''
     = Inr \<lparr>Container_Repository = ''nginx'', Container_Registry = ''index.docker.io'',
            Container_ID = ''nginx:latest'',
            Container_Digest = ''zzzzzzzzzzzzzzzzzzzzzzzzzzzzzzzzzzzzzzzzzzzzzzzzzzzzzzzzzzzzzzzz'',
            Container_Version = ''latest''\<rparr>
   \<and> \<not> hex64 ''zzzzzzzzzzzzzzzzzzzzzzzzzzzzzzzzzzzzzzzzzzzzzzzzzzzzzzzzzzzzzzzz''"
  by (simp add: sampleDeps_def GetContainer_def extractDigest_def Contains_def HasPrefix_def
      TrimPrefix_def Canonical_def Canonical_Size_def DefaultRegistry_def hex64_def
      isHexByte_def Let_def)


section \<open>Properties of the extractor\<close>

lemma nestedFieldFrom_open:
  "\<not> blocked v p \<Longrightarrow> nestedFieldFrom w v p = Inr (fieldAt v p)"
  by (induction p arbitrary: v w) (auto split: json.splits option.splits)

lemma nestedFieldFrom_blocked:
  "blocked v p \<Longrightarrow> \<exists>e. nestedFieldFrom w v p = Inl e"
  by (induction p arbitrary: v w) (auto split: json.splits option.splits)

lemma NestedFieldNoCopy_cases:
  "(blocked v p \<longrightarrow> (\<exists>e. NestedFieldNoCopy v p = Inl e))
   \<and> (\<not> blocked v p \<longrightarrow> NestedFieldNoCopy v p = Inr (fieldAt v p))"
  unfolding NestedFieldNoCopy_def
  using nestedFieldFrom_open nestedFieldFrom_blocked by blast

lemma image_of_entry:
  "NestedString m [''image''] =
     (case map_of m ''image'' of
        None \<Rightarrow> Inr None
      | Some (JString s) \<Rightarrow> Inr (Some s)
      | Some _ \<Rightarrow> Inl (AccessorError [''image'']))"
  by (simp add: NestedString_def NestedFieldNoCopy_def split: option.splits json.splits)

lemma containerImages_readable:
  "entryReadable x \<Longrightarrow>
     containerImages (x # es) =
       (case containerImages es of
          Inl e \<Rightarrow> Inl e
        | Inr imgs \<Rightarrow> Inr (declaredImages [x] @ imgs))"
  by (cases x)
     (auto simp: entryReadable_def declaredImages_def image_of_entry
           split: option.splits json.splits sum.splits)

lemma containerImages_unreadable:
  "\<not> entryReadable x \<Longrightarrow> \<exists>e. containerImages (x # es) = Inl e"
  by (cases x)
     (auto simp: entryReadable_def image_of_entry split: option.splits json.splits sum.splits)

lemma declaredImages_Cons: "declaredImages (x # es) = declaredImages [x] @ declaredImages es"
  by (simp add: declaredImages_def)

lemma containerImages_cases:
  "(list_all entryReadable es \<longrightarrow> containerImages es = Inr (declaredImages es))
   \<and> (\<not> list_all entryReadable es \<longrightarrow> (\<exists>e. containerImages es = Inl e))"
proof (induction es)
  case Nil
  then show ?case by (simp add: declaredImages_def)
next
  case (Cons x es)
  show ?case
  proof (cases "entryReadable x")
    case True
    with Cons show ?thesis
      by (auto simp: containerImages_readable declaredImages_Cons [of x es]
            simp del: containerImages.simps)
  next
    case False
    with containerImages_unreadable [OF False, of es] show ?thesis
      by simp
  qed
qed

lemma extractImages_cases:
  "(listReadable resource name \<longrightarrow>
      extractImages resource (podTemplatePath (GetKind resource) @ [name])
        = Inr (imagesUnder resource name))
   \<and> (\<not> listReadable resource name \<longrightarrow>
      (\<exists>e. extractImages resource (podTemplatePath (GetKind resource) @ [name]) = Inl e))"
  using NestedFieldNoCopy_cases [of "JObject resource" "podTemplatePath (GetKind resource) @ [name]"]
    containerImages_cases
  by (auto simp: listReadable_def imagesUnder_def extractImages_def NestedSlice_def Let_def
           split: option.splits json.splits sum.splits)

lemma name_cases:
  "(nameReadable resource \<longrightarrow>
      (\<exists>n. NestedString resource [''metadata'', ''name''] = Inr n
            \<and> (case n of Some s \<Rightarrow> s | None \<Rightarrow> []) = declaredName resource))
   \<and> (\<not> nameReadable resource \<longrightarrow>
      (\<exists>e. NestedString resource [''metadata'', ''name''] = Inl e))"
  using NestedFieldNoCopy_cases [of "JObject resource" "[''metadata'', ''name'']"]
  by (auto simp: nameReadable_def declaredName_def NestedString_def
           split: option.splits json.splits sum.splits)

lemma nestedKeys_path:
  "(if GetKind resource = KindPod then [''spec'']
    else if GetKind resource = KindCronJob
    then [''spec'', ''jobTemplate'', ''spec'', ''template'', ''spec'']
    else [''spec'', ''template'', ''spec'']) = podTemplatePath (GetKind resource)"
  by (simp add: podTemplatePath_def KindPod_def KindCronJob_def)

text \<open>
  C2, as the code has it. \<open>FromResource\<close> reads the container entries from the pod
  template of the resource's kind: \<open>spec\<close> for a Pod,
  \<open>spec.jobTemplate.spec.template.spec\<close> for a CronJob, \<open>spec.template.spec\<close> for
  every other kind, recognised or not. It returns an artifact exactly when the resource
  is readable, whatever its kind, and an error it returns is the error of one of the
  three list reads or of the name read. The artifact has the images declared under
  \<open>containers\<close>, then those under \<open>ephemeralContainers\<close>, then those under
  \<open>initContainers\<close>, each list in declaration order, an entry without \<open>image\<close>
  giving none.
\<close>

theorem FromResource_images:
  "case FromResource resource of
     Inr a \<Rightarrow>
       readable resource
       \<and> a = \<lparr>Artifact_Namespace = GetNamespace resource,
              Artifact_Kind = GetKind resource,
              Artifact_Name = declaredName resource,
              Artifact_Images = imagesUnder resource ''containers''
                                 @ imagesUnder resource ''ephemeralContainers''
                                 @ imagesUnder resource ''initContainers'',
              Artifact_RawResource = resource\<rparr>
   | Inl e \<Rightarrow>
       \<not> readable resource
       \<and> (extractImages resource (podTemplatePath (GetKind resource) @ [''containers'']) = Inl e
          \<or> extractImages resource (podTemplatePath (GetKind resource) @ [''ephemeralContainers''])
               = Inl e
          \<or> extractImages resource (podTemplatePath (GetKind resource) @ [''initContainers''])
               = Inl e
          \<or> NestedString resource [''metadata'', ''name''] = Inl e)"
proof -
  let ?c = "extractImages resource (podTemplatePath (GetKind resource) @ [''containers''])"
  let ?e = "extractImages resource (podTemplatePath (GetKind resource) @ [''ephemeralContainers''])"
  let ?i = "extractImages resource (podTemplatePath (GetKind resource) @ [''initContainers''])"
  let ?n = "NestedString resource [''metadata'', ''name'']"
  have unfold: "FromResource resource =
      (case ?c of
         Inl err \<Rightarrow> Inl err
       | Inr cs \<Rightarrow>
           (case ?e of
              Inl err \<Rightarrow> Inl err
            | Inr es \<Rightarrow>
                (case ?i of
                   Inl err \<Rightarrow> Inl err
                 | Inr ins \<Rightarrow>
                     (case ?n of
                        Inl err \<Rightarrow> Inl err
                      | Inr name \<Rightarrow>
                          Inr \<lparr>Artifact_Namespace = GetNamespace resource,
                               Artifact_Kind = GetKind resource,
                               Artifact_Name = (case name of Some n \<Rightarrow> n | None \<Rightarrow> []),
                               Artifact_Images = cs @ es @ ins,
                               Artifact_RawResource = resource\<rparr>))))"
    unfolding FromResource_def nestedKeys_path Let_def by (rule refl)
  note c = extractImages_cases [of resource "''containers''"]
  note e = extractImages_cases [of resource "''ephemeralContainers''"]
  note i = extractImages_cases [of resource "''initContainers''"]
  note n = name_cases [of resource]
  show ?thesis
  proof (cases "listReadable resource ''containers''")
    case False
    with c show ?thesis
      by (auto simp: unfold readable_def)
  next
    case lc: True
    with c have cs: "?c = Inr (imagesUnder resource ''containers'')"
      by simp
    show ?thesis
    proof (cases "listReadable resource ''ephemeralContainers''")
      case False
      with e show ?thesis
        by (auto simp: unfold cs readable_def)
    next
      case le: True
      with e have es: "?e = Inr (imagesUnder resource ''ephemeralContainers'')"
        by simp
      show ?thesis
      proof (cases "listReadable resource ''initContainers''")
        case False
        with i show ?thesis
          by (auto simp: unfold cs es readable_def)
      next
        case li: True
        with i have ins: "?i = Inr (imagesUnder resource ''initContainers'')"
          by simp
        show ?thesis
        proof (cases "nameReadable resource")
          case False
          with n show ?thesis
            by (auto simp: unfold cs es ins readable_def)
        next
          case True
          with n lc le li show ?thesis
            by (auto simp: unfold cs es ins readable_def)
        qed
      qed
    qed
  qed
qed


theorem FromResource_images_witness:
  "readable cronJobExample
   \<and> FromResource cronJobExample
       = Inr \<lparr>Artifact_Namespace = ''default'', Artifact_Kind = ''CronJob'',
              Artifact_Name = ''nightly'', Artifact_Images = [''nginx:1.25''],
              Artifact_RawResource = cronJobExample\<rparr>
   \<and> readable widgetExample
   \<and> FromResource widgetExample
       = Inr \<lparr>Artifact_Namespace = [], Artifact_Kind = ''Widget'',
              Artifact_Name = [], Artifact_Images = [''busybox''],
              Artifact_RawResource = widgetExample\<rparr>
   \<and> readable [] \<and> GetKind [] = []
   \<and> FromResource []
       = Inr \<lparr>Artifact_Namespace = [], Artifact_Kind = [], Artifact_Name = [],
              Artifact_Images = [], Artifact_RawResource = []\<rparr>"
proof -
  have rc: "readable cronJobExample" and rw: "readable widgetExample" and re: "readable []"
    by code_simp+
  have k: "GetKind [] = []"
    by code_simp
  have vc: "\<lparr>Artifact_Namespace = GetNamespace cronJobExample,
              Artifact_Kind = GetKind cronJobExample,
              Artifact_Name = declaredName cronJobExample,
              Artifact_Images = imagesUnder cronJobExample ''containers''
                                 @ imagesUnder cronJobExample ''ephemeralContainers''
                                 @ imagesUnder cronJobExample ''initContainers'',
              Artifact_RawResource = cronJobExample\<rparr>
            = \<lparr>Artifact_Namespace = ''default'', Artifact_Kind = ''CronJob'',
              Artifact_Name = ''nightly'', Artifact_Images = [''nginx:1.25''],
              Artifact_RawResource = cronJobExample\<rparr>"
    by code_simp
  have vw: "\<lparr>Artifact_Namespace = GetNamespace widgetExample,
              Artifact_Kind = GetKind widgetExample,
              Artifact_Name = declaredName widgetExample,
              Artifact_Images = imagesUnder widgetExample ''containers''
                                 @ imagesUnder widgetExample ''ephemeralContainers''
                                 @ imagesUnder widgetExample ''initContainers'',
              Artifact_RawResource = widgetExample\<rparr>
            = \<lparr>Artifact_Namespace = [], Artifact_Kind = ''Widget'',
              Artifact_Name = [], Artifact_Images = [''busybox''],
              Artifact_RawResource = widgetExample\<rparr>"
    by code_simp
  have ve: "\<lparr>Artifact_Namespace = GetNamespace [],
              Artifact_Kind = GetKind [],
              Artifact_Name = declaredName [],
              Artifact_Images = imagesUnder [] ''containers''
                                 @ imagesUnder [] ''ephemeralContainers''
                                 @ imagesUnder [] ''initContainers'',
              Artifact_RawResource = []\<rparr>
            = \<lparr>Artifact_Namespace = [], Artifact_Kind = [], Artifact_Name = [],
              Artifact_Images = [], Artifact_RawResource = []\<rparr>"
    by code_simp
  have c: "FromResource cronJobExample
       = Inr \<lparr>Artifact_Namespace = ''default'', Artifact_Kind = ''CronJob'',
              Artifact_Name = ''nightly'', Artifact_Images = [''nginx:1.25''],
              Artifact_RawResource = cronJobExample\<rparr>"
    using FromResource_images [of cronJobExample] rc
    by (cases "FromResource cronJobExample") (simp_all add: vc)
  have w: "FromResource widgetExample
       = Inr \<lparr>Artifact_Namespace = [], Artifact_Kind = ''Widget'',
              Artifact_Name = [], Artifact_Images = [''busybox''],
              Artifact_RawResource = widgetExample\<rparr>"
    using FromResource_images [of widgetExample] rw
    by (cases "FromResource widgetExample") (simp_all add: vw)
  have e: "FromResource []
       = Inr \<lparr>Artifact_Namespace = [], Artifact_Kind = [], Artifact_Name = [],
              Artifact_Images = [], Artifact_RawResource = []\<rparr>"
    using FromResource_images [of "[]"] re
    by (cases "FromResource []") (simp_all add: ve)
  from rc rw re k c w e show ?thesis
    by simp
qed

text \<open>
  The order of the claim as written, init containers before ephemeral containers, is not
  the order of the code.
\<close>

theorem FromResource_init_after_ephemeral:
  "FromResource podExample
     = Inr \<lparr>Artifact_Namespace = [], Artifact_Kind = ''Pod'',
            Artifact_Name = ''p'', Artifact_Images = [''b'', ''a''],
            Artifact_RawResource = podExample\<rparr>
   \<and> imagesUnder podExample ''containers'' @ imagesUnder podExample ''initContainers''
       @ imagesUnder podExample ''ephemeralContainers'' = [''a'', ''b'']"
  by code_simp



section \<open>Listing errors\<close>

lemma collectComponents_returns: "\<exists>comps. collectComponents d c labels = Inr comps"
  by (simp add: collectComponents_def)

lemma CreateBomComponents_returns: "\<exists>comps. CreateBomComponents d c namespace = Inr comps"
  by (simp add: CreateBomComponents_def collectComponents_def Let_def)

lemma collectComponents_append:
  "collectComponents d c (xs @ ys) =
     (case collectComponents d c xs of
        Inl e \<Rightarrow> Inl e
      | Inr a \<Rightarrow> (case collectComponents d c ys of Inl e \<Rightarrow> Inl e | Inr b \<Rightarrow> Inr (a @ b)))"
  by (simp add: collectComponents_def)

lemma collectComponents_failing:
  "isl (Pods_List c namespace labelSelector) \<Longrightarrow>
     collectComponents d c [(namespace, labelSelector)] = Inr []"
  by (cases "Pods_List c namespace labelSelector") (simp_all add: collectComponents_def)

lemma collectComponents_all_failing:
  "\<forall>ns sel. isl (Pods_List c ns sel) \<Longrightarrow> collectComponents d c labels = Inr []"
proof (induction labels)
  case Nil
  then show ?case by (simp add: collectComponents_def)
next
  case (Cons l labels)
  obtain ns sel where l: "l = (ns, sel)"
    by (cases l)
  from Cons have "isl (Pods_List c ns sel)"
    by simp
  from collectComponents_failing [OF this, of d] Cons
    collectComponents_append [of d c "[(ns, sel)]" labels]
  show ?case
    by (simp add: l)
qed

text \<open>
  C3, as the code has it. Node listing: \<open>CollectNodes\<close> turns a not-found or
  forbidden error into the empty list, and the build goes on with it; every other error
  of the node listing is returned by \<open>CollectNodes\<close> and by \<open>CreateClusterBom\<close>.
  Component listing: \<open>collectComponents\<close> and \<open>CreateBomComponents\<close> never return
  an error; a selector whose pod listing fails, with whatever error, contributes no
  component, wherever it stands among the selectors, and the other selectors contribute
  as they do without it; when every pod listing fails, \<open>CreateBomComponents\<close> returns
  no component.
\<close>

theorem listing_errors:
  "(\<exists>comps. CreateBomComponents d c [] = Inr comps
      \<and> (case Nodes_List c of
            Inl err \<Rightarrow>
              if IsNotFound err \<or> IsForbidden err
              then CollectNodes c comps = Inr []
                   \<and> CreateClusterBom d c = getClusterBomInfo c comps []
              else CollectNodes c comps = Inl err \<and> CreateClusterBom d c = Inl err
          | Inr nodes \<Rightarrow>
              \<exists>infos. CollectNodes c comps = Inr infos
                \<and> CreateClusterBom d c = getClusterBomInfo c comps infos))
   \<and> (\<exists>comps. collectComponents d c labels = Inr comps)
   \<and> (case Pods_List c namespace labelSelector of
         Inl err \<Rightarrow> collectComponents d c [(namespace, labelSelector)] = Inr []
       | Inr pods \<Rightarrow> \<exists>comps. collectComponents d c [(namespace, labelSelector)] = Inr comps
                       \<and> length comps \<le> length pods)
   \<and> (isl (Pods_List c namespace labelSelector)
        \<longrightarrow> collectComponents d c (xs @ (namespace, labelSelector) # ys)
              = collectComponents d c (xs @ ys))
   \<and> ((\<forall>ns sel. isl (Pods_List c ns sel)) \<longrightarrow> CreateBomComponents d c ns0 = Inr [])"
proof -
  obtain comps where comps: "CreateBomComponents d c [] = Inr comps"
    using CreateBomComponents_returns by blast
  have nodes: "case Nodes_List c of
            Inl err \<Rightarrow>
              if IsNotFound err \<or> IsForbidden err
              then CollectNodes c comps = Inr []
                   \<and> CreateClusterBom d c = getClusterBomInfo c comps []
              else CollectNodes c comps = Inl err \<and> CreateClusterBom d c = Inl err
          | Inr nodes \<Rightarrow>
              \<exists>infos. CollectNodes c comps = Inr infos
                \<and> CreateClusterBom d c = getClusterBomInfo c comps infos"
    by (simp add: CollectNodes_def CreateClusterBom_def comps split: sum.splits)
  have len: "length (concat (map (\<lambda>pod. case PodInfo d pod labelSelector of
                                      Inl err \<Rightarrow> []
                                    | Inr pi \<Rightarrow> [pi]) pods)) \<le> length pods" for pods
    by (induction pods) (auto split: sum.splits)
  have pods: "case Pods_List c namespace labelSelector of
         Inl err \<Rightarrow> collectComponents d c [(namespace, labelSelector)] = Inr []
       | Inr pods \<Rightarrow> \<exists>comps. collectComponents d c [(namespace, labelSelector)] = Inr comps
                       \<and> length comps \<le> length pods"
    using len by (simp add: collectComponents_def split: sum.splits)
  have skip: "collectComponents d c (xs @ (namespace, labelSelector) # ys)
                = collectComponents d c (xs @ ys)"
    if "isl (Pods_List c namespace labelSelector)"
    using collectComponents_failing [OF that, of d]
      collectComponents_append [of d c xs "(namespace, labelSelector) # ys"]
      collectComponents_append [of d c "[(namespace, labelSelector)]" ys]
      collectComponents_append [of d c xs ys]
    by (simp split: sum.splits)
  have none: "CreateBomComponents d c ns0 = Inr []"
    if "\<forall>ns sel. isl (Pods_List c ns sel)"
    using collectComponents_all_failing [OF that, of d]
    by (simp add: CreateBomComponents_def Let_def)
  from comps nodes pods have "(\<exists>comps. CreateBomComponents d c [] = Inr comps
      \<and> (case Nodes_List c of
            Inl err \<Rightarrow>
              if IsNotFound err \<or> IsForbidden err
              then CollectNodes c comps = Inr []
                   \<and> CreateClusterBom d c = getClusterBomInfo c comps []
              else CollectNodes c comps = Inl err \<and> CreateClusterBom d c = Inl err
          | Inr nodes \<Rightarrow>
              \<exists>infos. CollectNodes c comps = Inr infos
                \<and> CreateClusterBom d c = getClusterBomInfo c comps infos))"
    by blast
  with pods skip none collectComponents_returns [of d c labels] show ?thesis
    by simp
qed


theorem listing_errors_witness:
  "Nodes_List forbiddenNodesCluster = Inl (StatusError Forbidden)
   \<and> IsForbidden (StatusError Forbidden)
   \<and> (\<exists>comps. CreateBomComponents sampleDeps forbiddenNodesCluster [] = Inr comps
         \<and> CollectNodes forbiddenNodesCluster comps = Inr []
         \<and> CreateClusterBom sampleDeps forbiddenNodesCluster
             = getClusterBomInfo forbiddenNodesCluster comps [])
   \<and> Nodes_List unreachableNodesCluster = Inl connectionRefused
   \<and> \<not> IsNotFound connectionRefused \<and> \<not> IsForbidden connectionRefused
   \<and> CreateClusterBom sampleDeps unreachableNodesCluster = Inl connectionRefused
   \<and> Pods_List unreachablePodsCluster ''kube-system'' ''k8s-app'' = Inl connectionRefused
   \<and> collectComponents sampleDeps unreachablePodsCluster [(''kube-system'', ''k8s-app'')] = Inr []
   \<and> CreateBomComponents sampleDeps unreachablePodsCluster ''kube-system'' = Inr []
   \<and> Pods_List partlyUnreachableCluster [] ''app.kubernetes.io/component=controller''
       = Inl connectionRefused
   \<and> collectComponents sampleDeps partlyUnreachableCluster
        [([], ''app.kubernetes.io/component=controller''), (''kube-system'', ''k8s-app'')]
       = Inr [\<lparr>Component_Namespace = ''kube-system'', Component_Name = ''metrics'',
               Component_Version = [],
               Component_Properties = [(''Name'', ''pending-0''), (''Type'', [])],
               Component_Containers = []\<rparr>]"
proof -
  have f: "Nodes_List forbiddenNodesCluster = Inl (StatusError Forbidden)"
    by (simp add: forbiddenNodesCluster_def)
  have u: "Nodes_List unreachableNodesCluster = Inl connectionRefused"
    by (simp add: unreachableNodesCluster_def)
  have p: "Pods_List unreachablePodsCluster ''kube-system'' ''k8s-app'' = Inl connectionRefused"
    by (simp add: unreachablePodsCluster_def)
  have c: "\<not> IsNotFound connectionRefused \<and> \<not> IsForbidden connectionRefused"
    by (simp add: connectionRefused_def)
  have a: "\<exists>comps. CreateBomComponents sampleDeps forbiddenNodesCluster [] = Inr comps
         \<and> CollectNodes forbiddenNodesCluster comps = Inr []
         \<and> CreateClusterBom sampleDeps forbiddenNodesCluster
             = getClusterBomInfo forbiddenNodesCluster comps []"
    using listing_errors [of sampleDeps forbiddenNodesCluster, THEN conjunct1]
    by (simp add: f)
  have b: "CreateClusterBom sampleDeps unreachableNodesCluster = Inl connectionRefused"
    using listing_errors [of sampleDeps unreachableNodesCluster, THEN conjunct1]
    by (auto simp: u c)
  have e: "collectComponents sampleDeps unreachablePodsCluster [(''kube-system'', ''k8s-app'')]
             = Inr []"
    using listing_errors [of sampleDeps unreachablePodsCluster "[]" "''kube-system''"
        "''k8s-app''" "[]" "[]" "[]", THEN conjunct2, THEN conjunct2, THEN conjunct1]
    by (simp add: p)
  have al: "\<forall>ns sel. isl (Pods_List unreachablePodsCluster ns sel)"
    by (simp add: unreachablePodsCluster_def)
  have n: "CreateBomComponents sampleDeps unreachablePodsCluster ''kube-system'' = Inr []"
    using listing_errors [of sampleDeps unreachablePodsCluster "[]" "[]" "[]" "[]" "[]"
        "''kube-system''", THEN conjunct2, THEN conjunct2, THEN conjunct2, THEN conjunct2] al
    by simp
  have q: "Pods_List partlyUnreachableCluster [] ''app.kubernetes.io/component=controller''
             = Inl connectionRefused"
    by (simp add: partlyUnreachableCluster_def pendingPodCluster_def)
  have r: "collectComponents sampleDeps partlyUnreachableCluster [(''kube-system'', ''k8s-app'')]
       = Inr [\<lparr>Component_Namespace = ''kube-system'', Component_Name = ''metrics'',
               Component_Version = [],
               Component_Properties = [(''Name'', ''pending-0''), (''Type'', [])],
               Component_Containers = []\<rparr>]"
    by code_simp
  have s: "collectComponents sampleDeps partlyUnreachableCluster
        [([], ''app.kubernetes.io/component=controller''), (''kube-system'', ''k8s-app'')]
       = Inr [\<lparr>Component_Namespace = ''kube-system'', Component_Name = ''metrics'',
               Component_Version = [],
               Component_Properties = [(''Name'', ''pending-0''), (''Type'', [])],
               Component_Containers = []\<rparr>]"
    using listing_errors [of sampleDeps partlyUnreachableCluster "[]" "[]"
        "''app.kubernetes.io/component=controller''" "[]" "[(''kube-system'', ''k8s-app'')]"
        "[]", THEN conjunct2, THEN conjunct2, THEN conjunct2, THEN conjunct1] q r
    by simp
  show ?thesis
    using a b e f u p c n q s by simp
qed

text \<open>
  The claim as written fails for the component listing: an error that is neither
  not-found nor forbidden is not propagated, and the build succeeds without components.
\<close>

theorem component_listing_error_not_fatal:
  "Pods_List unreachablePodsCluster [] ''component'' = Inl connectionRefused
   \<and> Pods_List unreachablePodsCluster [] ''app.kubernetes.io/component=controller''
       = Inl connectionRefused
   \<and> Pods_List unreachablePodsCluster ''kube-system'' ''k8s-app'' = Inl connectionRefused
   \<and> \<not> IsNotFound connectionRefused \<and> \<not> IsForbidden connectionRefused
   \<and> collectComponents sampleDeps unreachablePodsCluster [([], ''component'')] = Inr []
   \<and> CreateClusterBom sampleDeps unreachablePodsCluster
       = Inr \<lparr>Result_Components = [], Result_ID = ''k8s.io/kubernetes'',
              Result_Type = ''Cluster'', Result_Version = ''1.30.0'',
              Result_Properties = [(''Name'', ''k8s.io/kubernetes''), (''Type'', ''cluster'')],
              Result_NodesInfo = []\<rparr>"
  by code_simp



section \<open>Properties of the credential resolver\<close>









lemma Replace_wildcard: "HasPrefix key ''*.'' \<Longrightarrow> Replace key ''*'' [] = tl key"
  by (cases key) (auto simp: HasPrefix_def Replace_def)

lemma matchSubDomain_none:
  assumes "\<forall>w \<in> set ws. HasPrefix w ''*.''"
  shows "(matchSubDomain ws host = []) = (\<forall>w \<in> set ws. \<not> wildcardMatch w host)"
  using assms
proof (induction ws)
  case Nil
  then show ?case by simp
next
  case (Cons w ws)
  then have "w \<noteq> []"
    by (auto simp: HasPrefix_def)
  with Cons show ?case
    by (auto simp: wildcardMatch_def Replace_wildcard Let_def)
qed

lemma matchSubDomain_some:
  assumes "\<forall>w \<in> set ws. HasPrefix w ''*.''" and "matchSubDomain ws host \<noteq> []"
  shows "matchSubDomain ws host \<in> set ws \<and> wildcardMatch (matchSubDomain ws host) host"
  using assms
  by (induction ws) (auto simp: wildcardMatch_def Replace_wildcard Let_def)

lemma wildcard_servers:
  "set (GetWildcardServers auths) = {key \<in> fst ` set auths. HasPrefix key ''*.''}"
  by (auto simp: GetWildcardServers_def)

text \<open>
  C5. For an image reference whose registry server is determined: when the server is a
  key of the map, its entry is returned; otherwise, when some key matches the server as
  a wildcard, the entry of such a key is returned; otherwise neither a credential nor an
  error is returned.
\<close>

theorem credential_lookup:
  assumes "GetServerFromImageRef d imageRef = Inr server"
  shows "case map_of auths server of
           Some auth \<Rightarrow> MapContainerNamesToDockerAuths d imageRef auths = (Some auth, None)
         | None \<Rightarrow>
             if \<exists>key \<in> fst ` set auths. wildcardMatch key server
             then \<exists>key auth. key \<in> fst ` set auths \<and> wildcardMatch key server
                     \<and> map_of auths key = Some auth
                     \<and> MapContainerNamesToDockerAuths d imageRef auths = (Some auth, None)
             else MapContainerNamesToDockerAuths d imageRef auths = (None, None)"
proof (cases "map_of auths server")
  case (Some auth)
  with assms show ?thesis
    by (simp add: MapContainerNamesToDockerAuths_def)
next
  case None
  let ?ws = "GetWildcardServers auths"
  have pre: "\<forall>w \<in> set ?ws. HasPrefix w ''*.''"
    by (simp add: wildcard_servers)
  have ex: "(\<exists>key \<in> fst ` set auths. wildcardMatch key server)
              = (matchSubDomain ?ws server \<noteq> [])"
    using matchSubDomain_none [OF pre, of server]
    by (auto simp: wildcard_servers wildcardMatch_def)
  show ?thesis
  proof (cases "matchSubDomain ?ws server = []")
    case True
    with None assms ex show ?thesis
      by (simp add: MapContainerNamesToDockerAuths_def Let_def)
  next
    case False
    from matchSubDomain_some [OF pre False]
    have key: "matchSubDomain ?ws server \<in> fst ` set auths"
      and m: "wildcardMatch (matchSubDomain ?ws server) server"
      by (auto simp: wildcard_servers)
    from key obtain auth where a: "map_of auths (matchSubDomain ?ws server) = Some auth"
      by (metis domD dom_map_of_conv_image_fst)
    from False have ne: "?ws \<noteq> []"
      by auto
    have "MapContainerNamesToDockerAuths d imageRef auths = (Some auth, None)"
      using None assms False ne a
      by (simp add: MapContainerNamesToDockerAuths_def Let_def)
    with key m a
    have "\<exists>key auth. key \<in> fst ` set auths \<and> wildcardMatch key server
            \<and> map_of auths key = Some auth
            \<and> MapContainerNamesToDockerAuths d imageRef auths = (Some auth, None)"
      by blast
    moreover from ex False have "\<exists>key \<in> fst ` set auths. wildcardMatch key server"
      by simp
    ultimately show ?thesis
      using None by simp
  qed
qed


theorem credential_lookup_witness:
  "GetServerFromImageRef sampleDeps ''other.org/app:1'' = Inr ''other.org''
   \<and> MapContainerNamesToDockerAuths sampleDeps ''other.org/app:1'' wildcardOnly = (None, None)
   \<and> GetServerFromImageRef sampleDeps ''sub.example.com/app:1'' = Inr ''sub.example.com''
   \<and> MapContainerNamesToDockerAuths sampleDeps ''sub.example.com/app:1'' wildcardOnly
       = (Some \<lparr>Auth_Username = ''dave'', Auth_Password = ''pw''\<rparr>, None)
   \<and> GetServerFromImageRef sampleDeps ''*.example.com/app:1'' = Inr ''*.example.com''
   \<and> MapContainerNamesToDockerAuths sampleDeps ''*.example.com/app:1'' wildcardOnly
       = (Some \<lparr>Auth_Username = ''dave'', Auth_Password = ''pw''\<rparr>, None)"
proof -
  have o: "GetServerFromImageRef sampleDeps ''other.org/app:1'' = Inr ''other.org''"
    by (simp add: sampleDeps_def)
  have s: "GetServerFromImageRef sampleDeps ''sub.example.com/app:1'' = Inr ''sub.example.com''"
    by (simp add: sampleDeps_def)
  have e: "GetServerFromImageRef sampleDeps ''*.example.com/app:1'' = Inr ''*.example.com''"
    by (simp add: sampleDeps_def)
  have no: "\<not> wildcardMatch ''*.example.com'' ''other.org''"
    by (simp add: wildcardMatch_def HasSuffix_def)
  have yes: "wildcardMatch ''*.example.com'' ''sub.example.com''"
    by (simp add: wildcardMatch_def HasSuffix_def HasPrefix_def)
  have r1: "MapContainerNamesToDockerAuths sampleDeps ''other.org/app:1'' wildcardOnly
              = (None, None)"
    using credential_lookup [OF o, of wildcardOnly] no
    by (simp add: wildcardOnly_def)
  have r2: "MapContainerNamesToDockerAuths sampleDeps ''sub.example.com/app:1'' wildcardOnly
              = (Some \<lparr>Auth_Username = ''dave'', Auth_Password = ''pw''\<rparr>, None)"
    using credential_lookup [OF s, of wildcardOnly] yes
    by (auto simp: wildcardOnly_def)
  have r3: "MapContainerNamesToDockerAuths sampleDeps ''*.example.com/app:1'' wildcardOnly
              = (Some \<lparr>Auth_Username = ''dave'', Auth_Password = ''pw''\<rparr>, None)"
    using credential_lookup [OF e, of wildcardOnly]
    by (simp add: wildcardOnly_def)
  from o s e r1 r2 r3 show ?thesis
    by simp
qed



section \<open>Properties of the BOM assembler\<close>

lemma getImageIDsByStatuses_unfold:
  "getImageIDsByStatuses pod =
     (if length (PodSpec_Containers (Pod_Spec pod)) = 1 \<and> length (Pod_ContainerStatuses pod) = 1
      then [getImageID (Status_ImageID (hd (Pod_ContainerStatuses pod)))]
      else map (\<lambda>container.
                  case map_of (statusMap (Pod_ContainerStatuses pod)) (Container_Image container) of
                    Some imageId \<Rightarrow> getImageID imageId
                  | None \<Rightarrow> getImageID (Container_Image container))
               (PodSpec_Containers (Pod_Spec pod)))"
  by (auto simp: getImageIDsByStatuses_def statusMap_def Let_def split: list.splits)

lemma find_append:
  "find P (xs @ ys) = (case find P xs of Some x \<Rightarrow> Some x | None \<Rightarrow> find P ys)"
  by (induction xs) auto

lemma foldl_update_map_of:
  "map_of (foldl (\<lambda>m status. AList.update (Status_Image status) (Status_ImageID status) m)
             acc statuses) img
     = (case find (\<lambda>st. Status_Image st = img) (rev statuses) of
          Some st \<Rightarrow> Some (Status_ImageID st)
        | None \<Rightarrow> map_of acc img)"
proof (induction statuses arbitrary: acc)
  case Nil
  then show ?case by simp
next
  case (Cons st statuses)
  show ?case
    by (simp add: Cons.IH update_conv' find_append split: option.splits)
qed

lemma statusMap_lookup:
  "map_of (statusMap statuses) img = map_option Status_ImageID (lastStatusFor statuses img)"
  by (simp add: statusMap_def lastStatusFor_def foldl_update_map_of split: option.splits)

lemma length_getImageIDsByStatuses:
  "length (getImageIDsByStatuses pod) = length (PodSpec_Containers (Pod_Spec pod))"
  by (simp add: getImageIDsByStatuses_unfold)

lemma podContainers_returns:
  "i + length ss \<le> length ids \<Longrightarrow> \<exists>cs. podContainers d ids i ss = Inr cs"
proof (induction ss arbitrary: i)
  case Nil
  then show ?case by simp
next
  case (Cons s ss)
  then have "Suc i + length ss \<le> length ids" and "i < length ids"
    by simp_all
  with Cons.IH [of "Suc i"] show ?case
    by (auto simp: index_def split: sum.splits)
qed

lemma PodInfo_returns: "\<exists>c. PodInfo d pod labelSelector = Inr c"
proof -
  obtain cs where "podContainers d (getImageIDsByStatuses pod) 0
                     (PodSpec_Containers (Pod_Spec pod)) = Inr cs"
    using podContainers_returns [of 0 "PodSpec_Containers (Pod_Spec pod)"
            "getImageIDsByStatuses pod" d]
    by (auto simp: length_getImageIDsByStatuses)
  then show ?thesis
    by (simp add: PodInfo_def Let_def)
qed




lemma list_ex_TrimSpace:
  "list_ex (\<lambda>c. TrimSpace c = x) cs = (x \<in> TrimSpace ` set cs)"
  by (auto simp: list_ex_iff)

lemma members_k8s:
  "map TrimSpace (Split ''controller-manager,kubelet,apiserver,kubectl,kubernetes,kube-scheduler,kube-proxy,cloud-provider,ingress-nginx'' CHR '','')
     = [''controller-manager'', ''kubelet'', ''apiserver'', ''kubectl'', ''kubernetes'',
        ''kube-scheduler'', ''kube-proxy'', ''cloud-provider'', ''ingress-nginx'']"
  by code_simp

lemma members_sigs:
  "map TrimSpace (Split ''secrets-store-csi-driver'' CHR '','') = [''secrets-store-csi-driver'']"
  by code_simp

lemma members_etcd: "map TrimSpace (Split ''etcd/v3'' CHR '','') = [''etcd/v3'']"
  by code_simp

lemma member_sets:
  "TrimSpace ` set (Split ''controller-manager,kubelet,apiserver,kubectl,kubernetes,kube-scheduler,kube-proxy,cloud-provider,ingress-nginx'' CHR '','')
     = set [''controller-manager'', ''kubelet'', ''apiserver'', ''kubectl'', ''kubernetes'',
            ''kube-scheduler'', ''kube-proxy'', ''cloud-provider'', ''ingress-nginx'']"
  "TrimSpace ` set (Split ''secrets-store-csi-driver'' CHR '','') = set [''secrets-store-csi-driver'']"
  "TrimSpace ` set (Split ''etcd/v3'' CHR '','') = set [''etcd/v3'']"
  unfolding members_k8s [symmetric] members_sigs [symmetric] members_etcd [symmetric]
  by (simp_all only: set_map)

lemma upstreamOrgByName_range_find:
  "upstreamOrgByName_range ul tbl component =
     (case find (\<lambda>(key, components).
                  ToLower ul component \<in> TrimSpace ` set (Split components CHR '',''))
             tbl of
        Some (key, components) \<Rightarrow> key
      | None \<Rightarrow> [])"
  by (induction tbl) (auto simp: list_ex_TrimSpace)


lemma find_SomeD: "find P xs = Some x \<Longrightarrow> x \<in> set xs \<and> P x"
  by (induction xs) (auto split: if_splits)

lemma upstreamOrgByName_any_order:
  assumes "set tbl = set UpstreamOrgName"
  shows "upstreamOrgByName_range ul tbl component =
           (case owningOrg (ToLower ul) component of Some org \<Rightarrow> org | None \<Rightarrow> [])"
proof (cases "find (\<lambda>(key, components).
                  ToLower ul component \<in> TrimSpace ` set (Split components CHR '',''))
             tbl")
  case None
  then have "\<forall>e \<in> set UpstreamOrgName. \<not> (case e of (key, components) \<Rightarrow>
                ToLower ul component \<in> TrimSpace ` set (Split components CHR '',''))"
    using assms by (auto simp: find_None_iff)
  then have "owningOrg (ToLower ul) component = None"
    by (simp add: UpstreamOrgName_def member_sets
          owningOrg_def orgMembers_def)
  with None show ?thesis
    by (simp add: upstreamOrgByName_range_find)
next
  case (Some e)
  obtain key components where e: "e = (key, components)"
    by (cases e)
  from Some e have "(key, components) \<in> set tbl"
    and x: "ToLower ul component \<in> TrimSpace ` set (Split components CHR '','')"
    by (auto dest: find_SomeD)
  with assms have "(key, components) \<in> set UpstreamOrgName"
    by simp
  then consider
      (k8s) "key = ''k8s.io''" "components = ''controller-manager,kubelet,apiserver,kubectl,kubernetes,kube-scheduler,kube-proxy,cloud-provider,ingress-nginx''"
    | (sigs) "key = ''sigs.k8s.io''" "components = ''secrets-store-csi-driver''"
    | (etcd) "key = ''go.etcd.io''" "components = ''etcd/v3''"
    by (auto simp: UpstreamOrgName_def)
  then have "owningOrg (ToLower ul) component = Some key"
  proof cases
    case k8s
    with x show ?thesis
      unfolding k8s member_sets by (simp add: owningOrg_def orgMembers_def)
  next
    case sigs
    with x have "ToLower ul component = ''secrets-store-csi-driver''"
      unfolding sigs member_sets by simp
    with sigs show ?thesis
      by (simp add: owningOrg_def orgMembers_def)
  next
    case etcd
    with x have "ToLower ul component = ''etcd/v3''"
      unfolding etcd member_sets by simp
    with etcd show ?thesis
      by (simp add: owningOrg_def orgMembers_def)
  qed
  with Some e show ?thesis
    by (simp add: upstreamOrgByName_range_find)
qed

lemma upstreamOrgByName_owningOrg:
  "upstreamOrgByName d component =
     (case owningOrg (ToLower (unicodeToLower d)) component of Some org \<Rightarrow> org | None \<Rightarrow> [])"
  by (simp add: upstreamOrgByName_def upstreamOrgByName_any_order)

lemma owningOrg_nonempty: "owningOrg lower name = Some org \<Longrightarrow> org \<noteq> []"
  by (auto simp: owningOrg_def orgMembers_def split: if_splits)

lemma lowerByte_sameLetter:
  assumes "\<not> isUpperByte y"
  shows "(lowerByte x = y) = sameLetter x y"
proof (cases "isUpperByte x")
  case True
  then have "(of_char x :: nat) + 32 < 256"
    by (simp add: isUpperByte_def)
  then have "(char_of ((of_char x :: nat) + 32) = y) = ((of_char x :: nat) + 32 = of_char y)"
    by (metis of_char_of char_of_char mod_less)
  with True assms show ?thesis
    by (auto simp: lowerByte_def sameLetter_def isUpperByte_def)
next
  case False
  with assms show ?thesis
    by (auto simp: lowerByte_def sameLetter_def isUpperByte_def)
qed

lemma map_lowerByte_equalFold:
  "list_all (\<lambda>y. \<not> isUpperByte y) m \<Longrightarrow> (map lowerByte s = m) = equalFold s m"
proof (induction s arbitrary: m)
  case Nil
  then show ?case by (auto simp: equalFold_def)
next
  case (Cons x s)
  then show ?case
    by (cases m) (auto simp: equalFold_def lowerByte_sameLetter)
qed

lemma lowered_member:
  "list_all (list_all (\<lambda>y. \<not> isUpperByte y)) ms \<Longrightarrow>
     (map lowerByte s \<in> set ms) = list_ex (equalFold s) ms"
  by (induction ms) (auto simp: map_lowerByte_equalFold)

lemma members_lower_case:
  "list_all (\<lambda>(org, members). list_all (list_all (\<lambda>y. \<not> isUpperByte y)) members) orgMembers"
  by code_simp

lemma find_cong_set: "(\<And>x. x \<in> set xs \<Longrightarrow> P x = Q x) \<Longrightarrow> find P xs = find Q xs"
  by (induction xs) auto

lemma owningOrg_fold:
  assumes "list_all (\<lambda>c. (of_char c :: nat) < 128) name"
  shows "owningOrg (ToLower ul) name = owningOrgFold name"
proof -
  have low: "ToLower ul name = map lowerByte name"
    using assms by (simp add: ToLower_def)
  have "find (\<lambda>(org, members). ToLower ul name \<in> set members) orgMembers
          = find (\<lambda>(org, members). list_ex (equalFold name) members) orgMembers"
  proof (rule find_cong_set)
    fix x assume x: "x \<in> set orgMembers"
    obtain org members where om: "x = (org, members)"
      by (cases x)
    from x om members_lower_case
    have "list_all (list_all (\<lambda>y. \<not> isUpperByte y)) members"
      by (auto simp: list_all_iff)
    from lowered_member [OF this, of name] show "(case x of (org, members) \<Rightarrow> ToLower ul name \<in> set members)
            = (case x of (org, members) \<Rightarrow> list_ex (equalFold name) members)"
      by (simp add: om low)
  qed
  then show ?thesis
    by (simp add: owningOrg_def owningOrgFold_def)
qed

lemma qualifiedName_fold:
  "list_all (\<lambda>c. (of_char c :: nat) < 128) name \<Longrightarrow>
     qualifiedName (ToLower ul) name = qualifiedNameFold name"
  by (simp add: qualifiedName_def qualifiedNameFold_def owningOrg_fold)

text \<open>
  C6. For a pod without the label \<open>app.kubernetes.io/name\<close>, the component is named
  from the value of the selector's label: the value is first mapped through the repo-name
  table (itself when it has no entry), and the result is prefixed with \<open>org/\<close> when
  its lower-case form is one of the names an organisation owns, which for an ASCII name
  is when it equals such a name up to the case of its letters; its type is the entry of
  the core-component table for the canonical name, when there is one. The lemma
  \<open>upstreamOrgByName_any_order\<close> makes the organisation independent of the order in
  which the table is ranged over.
\<close>

theorem component_naming:
  assumes "lookupStr (Pod_Labels pod) ''app.kubernetes.io/name'' = []"
  shows "\<exists>c. PodInfo d pod labelSelector = Inr c
           \<and> Component_Name c
               = qualifiedName (ToLower (unicodeToLower d))
                   (canonicalName (lookupStr (Pod_Labels pod) labelSelector))
           \<and> (list_all (\<lambda>c. (of_char c :: nat) < 128)
                 (canonicalName (lookupStr (Pod_Labels pod) labelSelector))
                \<longrightarrow> Component_Name c
                      = qualifiedNameFold (canonicalName (lookupStr (Pod_Labels pod) labelSelector)))
           \<and> map_of (Component_Properties c) ''Type''
               = Some (case map_of CoreComponentPropertyType
                               (canonicalName (lookupStr (Pod_Labels pod) labelSelector)) of
                         Some t \<Rightarrow> t
                       | None \<Rightarrow> lookupStr (Pod_Labels pod) ''app.kubernetes.io/component'')"
proof -
  obtain cs where cs: "podContainers d (getImageIDsByStatuses pod) 0
                     (PodSpec_Containers (Pod_Spec pod)) = Inr cs"
    using podContainers_returns [of 0 "PodSpec_Containers (Pod_Spec pod)"
            "getImageIDsByStatuses pod" d]
    by (auto simp: length_getImageIDsByStatuses)
  have "\<exists>c. PodInfo d pod labelSelector = Inr c
           \<and> Component_Name c
               = qualifiedName (ToLower (unicodeToLower d))
                   (canonicalName (lookupStr (Pod_Labels pod) labelSelector))
           \<and> map_of (Component_Properties c) ''Type''
               = Some (case map_of CoreComponentPropertyType
                               (canonicalName (lookupStr (Pod_Labels pod) labelSelector)) of
                         Some t \<Rightarrow> t
                       | None \<Rightarrow> lookupStr (Pod_Labels pod) ''app.kubernetes.io/component'')"
    using assms owningOrg_nonempty
    by (auto simp: PodInfo_def cs Let_def upstreamOrgByName_owningOrg upstreamRepoByName_def
          canonicalName_def qualifiedName_def update_conv' split: option.splits)
  then obtain c where c: "PodInfo d pod labelSelector = Inr c"
    and n: "Component_Name c
               = qualifiedName (ToLower (unicodeToLower d))
                   (canonicalName (lookupStr (Pod_Labels pod) labelSelector))"
    and t: "map_of (Component_Properties c) ''Type''
               = Some (case map_of CoreComponentPropertyType
                               (canonicalName (lookupStr (Pod_Labels pod) labelSelector)) of
                         Some t \<Rightarrow> t
                       | None \<Rightarrow> lookupStr (Pod_Labels pod) ''app.kubernetes.io/component'')"
    by blast
  from n have "Component_Name c
                 = qualifiedNameFold (canonicalName (lookupStr (Pod_Labels pod) labelSelector))"
    if "list_all (\<lambda>c. (of_char c :: nat) < 128)
          (canonicalName (lookupStr (Pod_Labels pod) labelSelector))"
    using qualifiedName_fold [OF that] by simp
  with c n t show ?thesis
    by blast
qed

theorem component_naming_witness:
  "lookupStr (Pod_Labels apiServerPod) ''app.kubernetes.io/name'' = []
   \<and> canonicalName ''api server'' = ''apiserver''
   \<and> owningOrgFold ''apiserver'' = Some ''k8s.io''
   \<and> (\<exists>c. PodInfo sampleDeps apiServerPod ''component'' = Inr c
          \<and> Component_Name c = ''k8s.io/apiserver''
          \<and> map_of (Component_Properties c) ''Type'' = Some ''controlPlane'')
   \<and> lookupStr (Pod_Labels mixedCasePod) ''app.kubernetes.io/name'' = []
   \<and> canonicalName ''Kubelet'' = ''Kubelet''
   \<and> owningOrgFold ''Kubelet'' = Some ''k8s.io''
   \<and> (\<exists>c. PodInfo sampleDeps mixedCasePod ''component'' = Inr c
          \<and> Component_Name c = ''k8s.io/Kubelet'')"
proof -
  have h: "lookupStr (Pod_Labels apiServerPod) ''app.kubernetes.io/name'' = []"
    by code_simp
  have c: "canonicalName ''api server'' = ''apiserver''"
    by code_simp
  have o: "owningOrgFold ''apiserver'' = Some ''k8s.io''"
    by code_simp
  have l: "lookupStr (Pod_Labels apiServerPod) ''component'' = ''api server''"
    by code_simp
  have t: "map_of CoreComponentPropertyType ''apiserver'' = Some ''controlPlane''"
    by code_simp
  have a: "list_all (\<lambda>c. (of_char c :: nat) < 128) ''apiserver''"
    by simp
  have h': "lookupStr (Pod_Labels mixedCasePod) ''app.kubernetes.io/name'' = []"
    by code_simp
  have c': "canonicalName ''Kubelet'' = ''Kubelet''"
    by code_simp
  have o': "owningOrgFold ''Kubelet'' = Some ''k8s.io''"
    by code_simp
  have l': "lookupStr (Pod_Labels mixedCasePod) ''component'' = ''Kubelet''"
    by code_simp
  have a': "list_all (\<lambda>c. (of_char c :: nat) < 128) ''Kubelet''"
    by simp
  have r: "\<exists>c. PodInfo sampleDeps apiServerPod ''component'' = Inr c
          \<and> Component_Name c = ''k8s.io/apiserver''
          \<and> map_of (Component_Properties c) ''Type'' = Some ''controlPlane''"
    using component_naming [OF h, of sampleDeps "''component''"] a
    by (auto simp: l c t o qualifiedNameFold_def)
  have r': "\<exists>c. PodInfo sampleDeps mixedCasePod ''component'' = Inr c
          \<and> Component_Name c = ''k8s.io/Kubelet''"
    using component_naming [OF h', of sampleDeps "''component''"] a'
    by (auto simp: l' c' o' qualifiedNameFold_def)
  from h c o r h' c' o' r' show ?thesis
    by simp
qed


text \<open>
  C8. \<open>getImageIDsByStatuses\<close> gives one image ID per spec container. With exactly
  one spec container and exactly one status, it is the ID of that status's image ID,
  whatever the two image strings are. Otherwise the ID of a container is that of the
  image ID of the status correlated with its declared image and, when no status has that
  image, that of the declared image itself. The ID of a source is what \<open>getImageID\<close>
  makes of it.
\<close>

theorem image_ids_by_statuses:
  "length (getImageIDsByStatuses pod) = length (PodSpec_Containers (Pod_Spec pod))
   \<and> (length (PodSpec_Containers (Pod_Spec pod)) = 1 \<and> length (Pod_ContainerStatuses pod) = 1
        \<longrightarrow> getImageIDsByStatuses pod
              = [getImageID (Status_ImageID (hd (Pod_ContainerStatuses pod)))])
   \<and> (\<not> (length (PodSpec_Containers (Pod_Spec pod)) = 1
           \<and> length (Pod_ContainerStatuses pod) = 1)
        \<longrightarrow> (\<forall>i < length (PodSpec_Containers (Pod_Spec pod)).
               getImageIDsByStatuses pod ! i
                 = (case lastStatusFor (Pod_ContainerStatuses pod)
                           (Container_Image (PodSpec_Containers (Pod_Spec pod) ! i)) of
                      Some st \<Rightarrow> getImageID (Status_ImageID st)
                    | None \<Rightarrow> getImageID (Container_Image (PodSpec_Containers (Pod_Spec pod) ! i)))))"
  by (auto simp: getImageIDsByStatuses_unfold statusMap_lookup split: option.splits)


theorem image_ids_by_statuses_witness:
  "length (PodSpec_Containers (Pod_Spec singlePod)) = 1
   \<and> length (Pod_ContainerStatuses singlePod) = 1
   \<and> Container_Image (hd (PodSpec_Containers (Pod_Spec singlePod)))
       \<noteq> Status_Image (hd (Pod_ContainerStatuses singlePod))
   \<and> getImageIDsByStatuses singlePod
       = [''sha256:0123456789abcdef0123456789abcdef0123456789abcdef0123456789abcdef'']
   \<and> length (PodSpec_Containers (Pod_Spec twoContainerPod)) = 2
   \<and> getImageIDsByStatuses twoContainerPod ! 0
       = ''sha256:bbbbbbbbbbbbbbbbbbbbbbbbbbbbbbbbbbbbbbbbbbbbbbbbbbbbbbbbbbbbbbbb''
   \<and> getImageIDsByStatuses twoContainerPod ! 1
       = ''sha256:aaaaaaaaaaaaaaaaaaaaaaaaaaaaaaaaaaaaaaaaaaaaaaaaaaaaaaaaaaaaaaaa''"
proof -
  have s1: "length (PodSpec_Containers (Pod_Spec singlePod)) = 1
            \<and> length (Pod_ContainerStatuses singlePod) = 1"
    by (simp add: singlePod_def)
  have s2: "Container_Image (hd (PodSpec_Containers (Pod_Spec singlePod)))
              \<noteq> Status_Image (hd (Pod_ContainerStatuses singlePod))"
    by (simp add: singlePod_def)
  have s3: "getImageID (Status_ImageID (hd (Pod_ContainerStatuses singlePod)))
              = ''sha256:0123456789abcdef0123456789abcdef0123456789abcdef0123456789abcdef''"
    by code_simp
  have t1: "length (PodSpec_Containers (Pod_Spec twoContainerPod)) = 2"
    by (simp add: twoContainerPod_def)
  have t2: "(case lastStatusFor (Pod_ContainerStatuses twoContainerPod)
                           (Container_Image (PodSpec_Containers (Pod_Spec twoContainerPod) ! 0)) of
                      Some st \<Rightarrow> getImageID (Status_ImageID st)
                    | None \<Rightarrow> getImageID (Container_Image (PodSpec_Containers (Pod_Spec twoContainerPod) ! 0)))
      = ''sha256:bbbbbbbbbbbbbbbbbbbbbbbbbbbbbbbbbbbbbbbbbbbbbbbbbbbbbbbbbbbbbbbb''"
    by code_simp
  have t3: "(case lastStatusFor (Pod_ContainerStatuses twoContainerPod)
                           (Container_Image (PodSpec_Containers (Pod_Spec twoContainerPod) ! Suc 0)) of
                      Some st \<Rightarrow> getImageID (Status_ImageID st)
                    | None \<Rightarrow> getImageID (Container_Image (PodSpec_Containers (Pod_Spec twoContainerPod) ! Suc 0)))
      = ''sha256:aaaaaaaaaaaaaaaaaaaaaaaaaaaaaaaaaaaaaaaaaaaaaaaaaaaaaaaaaaaaaaaa''"
    by code_simp
  have a: "getImageIDsByStatuses singlePod
       = [''sha256:0123456789abcdef0123456789abcdef0123456789abcdef0123456789abcdef'']"
    using image_ids_by_statuses [of singlePod] s1 s3 by simp
  have b: "getImageIDsByStatuses twoContainerPod ! 0
       = ''sha256:bbbbbbbbbbbbbbbbbbbbbbbbbbbbbbbbbbbbbbbbbbbbbbbbbbbbbbbbbbbbbbbb''"
    using image_ids_by_statuses [of twoContainerPod] t1 t2 by simp
  have c: "getImageIDsByStatuses twoContainerPod ! 1
       = ''sha256:aaaaaaaaaaaaaaaaaaaaaaaaaaaaaaaaaaaaaaaaaaaaaaaaaaaaaaaaaaaaaaaa''"
    using image_ids_by_statuses [of twoContainerPod] t1 t3 by simp
  from s1 s2 t1 a b c show ?thesis
    by simp
qed




lemma parsedContainers_Cons:
  "parsedContainers d (s # ss) (imageId # ids) =
     (case GetContainer d (Container_Image s) imageId of
        Inl err \<Rightarrow> parsedContainers d ss ids
      | Inr c \<Rightarrow> c # parsedContainers d ss ids)"
  by (simp add: parsedContainers_def split: sum.splits)

lemma podContainers_parsed:
  "i + length ss \<le> length ids \<Longrightarrow> podContainers d ids i ss = Inr cs \<Longrightarrow>
     cs = parsedContainers d ss (drop i ids)"
proof (induction ss arbitrary: i cs)
  case Nil
  then show ?case by (simp add: parsedContainers_def)
next
  case (Cons s ss)
  then have i: "i < length ids" and le: "Suc i + length ss \<le> length ids"
    by simp_all
  then have dr: "drop i ids = ids ! i # drop (Suc i) ids"
    by (simp add: Cons_nth_drop_Suc)
  from Cons.prems(2) i obtain cs' where cs': "podContainers d ids (Suc i) ss = Inr cs'"
    by (auto simp: index_def split: sum.splits)
  from Cons.IH [OF le cs'] Cons.prems(2) i cs' show ?case
    by (auto simp: dr parsedContainers_Cons index_def split: sum.splits)
qed

lemma parsedContainers_none:
  "list_all (\<lambda>(s, imageId). isl (GetContainer d (Container_Image s) imageId)) (zip ss ids)
     \<Longrightarrow> parsedContainers d ss ids = []"
  by (fastforce simp: parsedContainers_def list_all_iff split: sum.splits)

text \<open>
  C10. \<open>PodInfo\<close> returns a component for every pod and label selector, never an
  error: its containers are those of the spec containers that \<open>GetContainer\<close>
  accepts, the others being skipped. So when no container can be parsed the component
  has no container, and it is still among the components \<open>collectComponents\<close>
  returns for a listing that holds the pod.
\<close>

theorem PodInfo_never_fails:
  "\<exists>c. PodInfo d pod labelSelector = Inr c
     \<and> Component_Containers c
         = parsedContainers d (PodSpec_Containers (Pod_Spec pod)) (getImageIDsByStatuses pod)
     \<and> (list_all (\<lambda>(s, imageId). isl (GetContainer d (Container_Image s) imageId))
            (zip (PodSpec_Containers (Pod_Spec pod)) (getImageIDsByStatuses pod))
          \<longrightarrow> Component_Containers c = [])
     \<and> ((namespace, labelSelector) \<in> set labels
            \<and> Pods_List r namespace labelSelector = Inr pods \<and> pod \<in> set pods
          \<longrightarrow> (\<exists>comps. collectComponents d r labels = Inr comps \<and> c \<in> set comps))"
proof -
  obtain cs where cs: "podContainers d (getImageIDsByStatuses pod) 0
                     (PodSpec_Containers (Pod_Spec pod)) = Inr cs"
    using podContainers_returns [of 0 "PodSpec_Containers (Pod_Spec pod)"
            "getImageIDsByStatuses pod" d]
    by (auto simp: length_getImageIDsByStatuses)
  then obtain c where c: "PodInfo d pod labelSelector = Inr c"
    and cc: "Component_Containers c = cs"
    by (simp add: PodInfo_def Let_def)
  have p: "cs = parsedContainers d (PodSpec_Containers (Pod_Spec pod))
                  (getImageIDsByStatuses pod)"
    using podContainers_parsed [OF _ cs] by (simp add: length_getImageIDsByStatuses)
  have incl: "c \<in> set comps"
    if "(namespace, labelSelector) \<in> set labels"
      and "Pods_List r namespace labelSelector = Inr pods" and "pod \<in> set pods"
      and "collectComponents d r labels = Inr comps" for comps
  proof -
    from that(4) have "comps = concat (map (\<lambda>(namespace, labelSelector).
            case Pods_List r namespace labelSelector of
              Inl err \<Rightarrow> []
            | Inr pods \<Rightarrow>
                concat (map (\<lambda>pod. case PodInfo d pod labelSelector of
                                      Inl err \<Rightarrow> []
                                    | Inr pi \<Rightarrow> [pi]) pods))
          labels)"
      by (simp add: collectComponents_def)
    with that(1-3) c show ?thesis
      by (force split: sum.splits)
  qed
  from c cc p incl parsedContainers_none [of d "PodSpec_Containers (Pod_Spec pod)"
      "getImageIDsByStatuses pod"] collectComponents_returns [of d r labels]
  show ?thesis
    by auto
qed

theorem PodInfo_never_fails_witness:
  "list_all (\<lambda>(s, imageId). isl (GetContainer sampleDeps (Container_Image s) imageId))
     (zip (PodSpec_Containers (Pod_Spec unparsablePod)) (getImageIDsByStatuses unparsablePod))
   \<and> (''kube-system'', ''k8s-app'') \<in> set [([], ''app.kubernetes.io/component=controller''),
                                              (''kube-system'', ''k8s-app'')]
   \<and> Pods_List pendingPodCluster ''kube-system'' ''k8s-app'' = Inr [unparsablePod]
   \<and> (\<exists>c. PodInfo sampleDeps unparsablePod ''k8s-app'' = Inr c
          \<and> Component_Containers c = []
          \<and> (\<exists>comps. collectComponents sampleDeps pendingPodCluster
                          [([], ''app.kubernetes.io/component=controller''),
                           (''kube-system'', ''k8s-app'')] = Inr comps
                 \<and> c \<in> set comps))
   \<and> CreateClusterBom sampleDeps pendingPodCluster
       = Inr \<lparr>Result_Components =
                [\<lparr>Component_Namespace = ''kube-system'', Component_Name = ''metrics'',
                  Component_Version = [],
                  Component_Properties = [(''Name'', ''pending-0''), (''Type'', [])],
                  Component_Containers = []\<rparr>],
              Result_ID = ''k8s.io/kubernetes'', Result_Type = ''Cluster'',
              Result_Version = ''1.30.0'',
              Result_Properties = [(''Name'', ''k8s.io/kubernetes''), (''Type'', ''cluster'')],
              Result_NodesInfo = []\<rparr>"
proof -
  have a: "list_all (\<lambda>(s, imageId). isl (GetContainer sampleDeps (Container_Image s) imageId))
     (zip (PodSpec_Containers (Pod_Spec unparsablePod)) (getImageIDsByStatuses unparsablePod))"
    by code_simp
  have l: "Pods_List pendingPodCluster ''kube-system'' ''k8s-app'' = Inr [unparsablePod]"
    by (simp add: pendingPodCluster_def)
  have b: "CreateClusterBom sampleDeps pendingPodCluster
       = Inr \<lparr>Result_Components =
                [\<lparr>Component_Namespace = ''kube-system'', Component_Name = ''metrics'',
                  Component_Version = [],
                  Component_Properties = [(''Name'', ''pending-0''), (''Type'', [])],
                  Component_Containers = []\<rparr>],
              Result_ID = ''k8s.io/kubernetes'', Result_Type = ''Cluster'',
              Result_Version = ''1.30.0'',
              Result_Properties = [(''Name'', ''k8s.io/kubernetes''), (''Type'', ''cluster'')],
              Result_NodesInfo = []\<rparr>"
    by code_simp
  have "\<exists>c. PodInfo sampleDeps unparsablePod ''k8s-app'' = Inr c
          \<and> Component_Containers c = []
          \<and> (\<exists>comps. collectComponents sampleDeps pendingPodCluster
                          [([], ''app.kubernetes.io/component=controller''),
                           (''kube-system'', ''k8s-app'')] = Inr comps
                 \<and> c \<in> set comps)"
    using PodInfo_never_fails [of sampleDeps unparsablePod "''k8s-app''" "''kube-system''"
      "[([], ''app.kubernetes.io/component=controller''), (''kube-system'', ''k8s-app'')]"
      pendingPodCluster "[unparsablePod]"] a l
    by fastforce
  with a l b show ?thesis
    by simp
qed



section \<open>Versions\<close>

lemma Trim_no_trailing:
  assumes "s = [] \<or> last s \<notin> set cutset"
  shows "Trim s cutset = dropWhile (\<lambda>c. c \<in> set cutset) s"
proof (cases s rule: rev_cases)
  case Nil
  then show ?thesis by (simp add: Trim_def)
next
  case (snoc ys y)
  with assms have "y \<notin> set cutset"
    by simp
  with snoc show ?thesis
    by (simp add: Trim_def)
qed

lemma dropWhile_last:
  "dropWhile P s \<noteq> [] \<Longrightarrow> last (dropWhile P s) = last s"
  by (induction s) (auto split: if_splits)

lemma trimString_leadingTrimmed:
  assumes "version = [] \<or> last version \<notin> {CHR ''v'', CHR ''V''}"
  shows "trimString version [''v'', ''V''] = leadingTrimmed version"
proof -
  have 1: "Trim version ''v'' = dropWhile (\<lambda>c. c = CHR ''v'') version"
    using assms Trim_no_trailing [of version "''v''"] by auto
  let ?s = "dropWhile (\<lambda>c. c = CHR ''v'') version"
  have "?s = [] \<or> last ?s \<notin> set ''V''"
  proof (cases "?s = []")
    case True
    then show ?thesis by simp
  next
    case False
    then have "version \<noteq> []"
      by auto
    with assms False dropWhile_last [of "\<lambda>c. c = CHR ''v''" version] show ?thesis
      by simp
  qed
  then have 2: "Trim ?s ''V'' = dropWhile (\<lambda>c. c = CHR ''V'') ?s"
    using Trim_no_trailing [of ?s "''V''"] by simp
  show ?thesis
    by (simp add: trimString_def leadingTrimmed_def 1 2)
qed

text \<open>
  C7, as the code has it. For a version that does not end in \<open>v\<close> or \<open>V\<close>, the
  kubelet version of \<open>NodeInfo\<close> (from the reported version after the distribution
  suffix is trimmed) and the cluster version of the BOM result (from the server version)
  are the version without its leading \<open>v\<close>s and \<open>V\<close>s and without the white space
  around it; for a version made of at most one leading \<open>v\<close> or \<open>V\<close> and a core
  that starts with neither and has no white space around it, that is the core.
\<close>

theorem version_trimming:
  assumes "version = [] \<or> last version \<notin> {CHR ''v'', CHR ''V''}"
  shows "(k8sVersions (Node_KubeletVersion node) = version
            \<longrightarrow> NodeInfo_KubeletVersion (NodeInfo node) = leadingTrimmed version)
       \<and> (ClusterNameVersion c = Inr (name, version)
            \<longrightarrow> (\<exists>res. getClusterBomInfo c components nodeInfo = Inr res
                   \<and> Result_Version res = leadingTrimmed version))
       \<and> ((p = [] \<or> p = ''v'' \<or> p = ''V'') \<and> version = p @ core \<and> core \<noteq> []
              \<and> hd core \<notin> {CHR ''v'', CHR ''V''} \<and> TrimSpace core = core
            \<longrightarrow> leadingTrimmed version = core)"
proof -
  have a: "NodeInfo_KubeletVersion (NodeInfo node) = leadingTrimmed version"
    if "k8sVersions (Node_KubeletVersion node) = version"
    using that trimString_leadingTrimmed [OF assms] by (simp add: NodeInfo_def Let_def)
  have b: "\<exists>res. getClusterBomInfo c components nodeInfo = Inr res
                   \<and> Result_Version res = leadingTrimmed version"
    if "ClusterNameVersion c = Inr (name, version)"
    using that trimString_leadingTrimmed [OF assms] by (simp add: getClusterBomInfo_def)
  have c: "leadingTrimmed version = core"
    if "p = [] \<or> p = ''v'' \<or> p = ''V''" and "version = p @ core" and "core \<noteq> []"
      and "hd core \<notin> {CHR ''v'', CHR ''V''}" and "TrimSpace core = core"
  proof -
    from that(3,4) have "dropWhile (\<lambda>c. c = CHR ''v'') core = core"
      and "dropWhile (\<lambda>c. c = CHR ''V'') core = core"
      by (cases core; simp)+
    with that(1,2,5) show ?thesis
      by (auto simp: leadingTrimmed_def)
  qed
  from a b c show ?thesis
    by blast
qed


theorem version_trimming_witness:
  "last ''v1.27.3'' = CHR ''3''
   \<and> k8sVersions (Node_KubeletVersion (sampleNode ''v1.27.3+rke2r1'')) = ''v1.27.3''
   \<and> NodeInfo_KubeletVersion (NodeInfo (sampleNode ''v1.27.3+rke2r1'')) = ''1.27.3''
   \<and> last ''v1.30.0'' = CHR ''0''
   \<and> ClusterNameVersion sampleCluster = Inr (''k8s.io/kubernetes'', ''v1.30.0'')
   \<and> (\<exists>res. getClusterBomInfo sampleCluster [] [] = Inr res \<and> Result_Version res = ''1.30.0'')"
proof -
  have k: "k8sVersions (Node_KubeletVersion (sampleNode ''v1.27.3+rke2r1'')) = ''v1.27.3''"
    by code_simp
  have n: "ClusterNameVersion sampleCluster = Inr (''k8s.io/kubernetes'', ''v1.30.0'')"
    by code_simp
  have t1: "TrimSpace ''1.27.3'' = ''1.27.3''"
    by code_simp
  have t2: "TrimSpace ''1.30.0'' = ''1.30.0''"
    by code_simp
  have h1: "''v1.27.3'' = [] \<or> last ''v1.27.3'' \<notin> {CHR ''v'', CHR ''V''}"
    by simp
  have h2: "''v1.30.0'' = [] \<or> last ''v1.30.0'' \<notin> {CHR ''v'', CHR ''V''}"
    by simp
  have a: "NodeInfo_KubeletVersion (NodeInfo (sampleNode ''v1.27.3+rke2r1'')) = ''1.27.3''"
    using version_trimming [OF h1, where node = "sampleNode ''v1.27.3+rke2r1''"
        and p = "''v''" and core = "''1.27.3''"] k t1
    by simp
  have b: "\<exists>res. getClusterBomInfo sampleCluster [] [] = Inr res
             \<and> Result_Version res = ''1.30.0''"
    using version_trimming [OF h2, where c = sampleCluster and name = "''k8s.io/kubernetes''"
        and components = "[]" and nodeInfo = "[]" and p = "''v''" and core = "''1.30.0''"
        and node = "sampleNode []"] n t2
    by auto
  from k n a b show ?thesis
    by simp
qed

text \<open>
  The claim as written fails: \<open>trimString\<close> also removes white space, every further
  leading \<open>v\<close>, and a trailing \<open>v\<close>, which \<open>getCluster\<close> keeps in the server
  version it stores.
\<close>

theorem version_trimming_removes_more:
  "k8sVersions ''v1.30.0 '' = ''v1.30.0 ''
   \<and> NodeInfo_KubeletVersion (NodeInfo (sampleNode ''v1.30.0 '')) = ''1.30.0''
   \<and> k8sVersions ''vv1.30.0'' = ''vv1.30.0''
   \<and> NodeInfo_KubeletVersion (NodeInfo (sampleNode ''vv1.30.0'')) = ''1.30.0''
   \<and> k8sVersions ''v1.30.0-dev'' = ''v1.30.0-dev''
   \<and> NodeInfo_KubeletVersion (NodeInfo (sampleNode ''v1.30.0-dev'')) = ''1.30.0-de''
   \<and> ClusterNameVersion (sampleCluster\<lparr>ServerVersion := Inr ''v1.30.0-dev''\<rparr>)
       = Inr (''k8s.io/kubernetes'', ''v1.30.0-dev'')
   \<and> getClusterBomInfo (sampleCluster\<lparr>ServerVersion := Inr ''v1.30.0-dev''\<rparr>) [] []
       = Inr \<lparr>Result_Components = [], Result_ID = ''k8s.io/kubernetes'',
              Result_Type = ''Cluster'', Result_Version = ''1.30.0-de'',
              Result_Properties = [(''Name'', ''k8s.io/kubernetes''), (''Type'', ''cluster'')],
              Result_NodesInfo = []\<rparr>
   \<and> getCluster_serverVersion ''v1.30.0-dev'' = ''1.30.0-dev''"
  by code_simp



section \<open>Pull secrets of a resource that is not a workload\<close>

text \<open>
  C9. For a resource whose kind is none of Pod, CronJob, Deployment, ReplicaSet,
  ReplicationController, StatefulSet, DaemonSet and Job, \<open>getWorkloadPodSpec\<close> gives
  no pod spec, \<open>ListImagePullSecretsByPodSpec\<close> gives the empty map for it, and
  \<open>AuthByResource\<close> returns the empty map and no error.
\<close>

theorem unsupported_kind_no_credentials:
  assumes "GetKind resource \<notin> set [''Pod'', ''CronJob'', ''Deployment'', ''ReplicaSet'',
             ''ReplicationController'', ''StatefulSet'', ''DaemonSet'', ''Job'']"
  shows "getWorkloadPodSpec d resource = Inr None
       \<and> ListImagePullSecretsByPodSpec d r None (GetNamespace resource) = Inr []
       \<and> AuthByResource d r resource = Inr []"
  using assms
  by (simp add: AuthByResource_def getWorkloadPodSpec_def ListImagePullSecretsByPodSpec_def
        KindPod_def KindCronJob_def KindDeployment_def KindReplicaSet_def
        KindReplicationController_def KindStatefulSet_def KindDaemonSet_def KindJob_def)

theorem unsupported_kind_no_credentials_witness:
  "GetKind serviceExample = ''Service''
   \<and> ''Service'' \<notin> set [''Pod'', ''CronJob'', ''Deployment'', ''ReplicaSet'',
             ''ReplicationController'', ''StatefulSet'', ''DaemonSet'', ''Job'']
   \<and> AuthByResource sampleDeps sampleCluster serviceExample = Inr []
   \<and> GetKind [] = []
   \<and> AuthByResource sampleDeps sampleCluster [] = Inr []"
proof -
  have k: "GetKind serviceExample = ''Service''"
    by code_simp
  have e: "GetKind [] = []"
    by code_simp
  have a: "AuthByResource sampleDeps sampleCluster serviceExample = Inr []"
    using unsupported_kind_no_credentials [of serviceExample sampleDeps sampleCluster] k
    by simp
  have b: "AuthByResource sampleDeps sampleCluster [] = Inr []"
    using unsupported_kind_no_credentials [of "[]" sampleDeps sampleCluster] e
    by simp
  from k e a b show ?thesis
    by simp
qed


end
